theory Spec2Isabelle
  imports Main "HOL-Library.Sublist"
begin

section \<open>Python strings\<close>

text \<open>
  A Python \<open>str\<close> is modelled as a \<open>string\<close>: the list of its code points, for texts
  whose code points are below 256.  The string methods the script calls are translated
  one by one; each fails where Python raises.
\<close>

datatype pyexc =
  TypeError | ValueError | IndexError | AttributeError | KeyError | SyntaxError
  | NameError | OverflowError | FileExistsError | PermissionError | FileNotFoundError

text \<open>\<open>sub in s\<close>\<close>

fun py_in :: "string \<Rightarrow> string \<Rightarrow> bool" where
  "py_in sub [] = (sub = [])"
| "py_in sub (c # cs) = (prefix sub (c # cs) \<or> py_in sub cs)"

text \<open>\<open>s.find(sub)\<close>: the index of the first occurrence, \<open>None\<close> for Python's \<open>-1\<close>.\<close>

fun py_find :: "string \<Rightarrow> string \<Rightarrow> nat option" where
  "py_find sub [] = (if sub = [] then Some 0 else None)"
| "py_find sub (c # cs) =
     (if prefix sub (c # cs) then Some 0 else map_option Suc (py_find sub cs))"

text \<open>\<open>s.endswith(ext)\<close>\<close>

definition py_endswith :: "string \<Rightarrow> string \<Rightarrow> bool" where
  "py_endswith s ext = suffix ext s"

text \<open>\<open>c.isspace()\<close>, \<open>c.isdigit()\<close> and \<open>s.lower()\<close> on code points below 256.\<close>

definition py_isspace :: "char \<Rightarrow> bool" where
  "py_isspace c = (c \<in> set [CHR 0x09, CHR 0x0A, CHR 0x0B, CHR 0x0C, CHR 0x0D,
     CHR 0x1C, CHR 0x1D, CHR 0x1E, CHR 0x1F, CHR 0x20, CHR 0x85, CHR 0xA0])"

definition py_isdigit :: "char \<Rightarrow> bool" where
  "py_isdigit c = (c \<in> set (''0123456789'' @ [CHR 0xB2, CHR 0xB3, CHR 0xB9]))"

definition upper_chars :: string where
  "upper_chars = ''ABCDEFGHIJKLMNOPQRSTUVWXYZ'' @
     [CHR 0xC0, CHR 0xC1, CHR 0xC2, CHR 0xC3, CHR 0xC4, CHR 0xC5, CHR 0xC6, CHR 0xC7,
      CHR 0xC8, CHR 0xC9, CHR 0xCA, CHR 0xCB, CHR 0xCC, CHR 0xCD, CHR 0xCE, CHR 0xCF,
      CHR 0xD0, CHR 0xD1, CHR 0xD2, CHR 0xD3, CHR 0xD4, CHR 0xD5, CHR 0xD6,
      CHR 0xD8, CHR 0xD9, CHR 0xDA, CHR 0xDB, CHR 0xDC, CHR 0xDD, CHR 0xDE]"

definition lower_chars :: string where
  "lower_chars = ''abcdefghijklmnopqrstuvwxyz'' @
     [CHR 0xE0, CHR 0xE1, CHR 0xE2, CHR 0xE3, CHR 0xE4, CHR 0xE5, CHR 0xE6, CHR 0xE7,
      CHR 0xE8, CHR 0xE9, CHR 0xEA, CHR 0xEB, CHR 0xEC, CHR 0xED, CHR 0xEE, CHR 0xEF,
      CHR 0xF0, CHR 0xF1, CHR 0xF2, CHR 0xF3, CHR 0xF4, CHR 0xF5, CHR 0xF6,
      CHR 0xF8, CHR 0xF9, CHR 0xFA, CHR 0xFB, CHR 0xFC, CHR 0xFD, CHR 0xFE]"

definition py_lower_char :: "char \<Rightarrow> char" where
  "py_lower_char c = (case map_of (zip upper_chars lower_chars) c of Some d \<Rightarrow> d | None \<Rightarrow> c)"

definition py_lower :: "string \<Rightarrow> string" where
  "py_lower s = map py_lower_char s"

text \<open>\<open>s.strip(chars)\<close> removes, at both ends, every character that is one of \<open>chars\<close>;
  \<open>s.strip()\<close> removes white space.\<close>

definition py_strip_chars :: "string \<Rightarrow> string \<Rightarrow> string" where
  "py_strip_chars chars s =
     rev (dropWhile (\<lambda>c. c \<in> set chars) (rev (dropWhile (\<lambda>c. c \<in> set chars) s)))"

definition py_strip :: "string \<Rightarrow> string" where
  "py_strip s = rev (dropWhile py_isspace (rev (dropWhile py_isspace s)))"

text \<open>\<open>s.split(sep)\<close> for a separator that is not empty (the script's separators are
  literals): the pieces between the occurrences of \<open>sep\<close>, found from left to right.\<close>

function py_split :: "string \<Rightarrow> string \<Rightarrow> string list" where
  "py_split sep [] = [[]]"
| "py_split sep (c # cs) =
     (if sep \<noteq> [] \<and> prefix sep (c # cs)
      then [] # py_split sep (drop (length sep) (c # cs))
      else (case py_split sep cs of
              [] \<Rightarrow> [[c]]
            | w # ws \<Rightarrow> (c # w) # ws))"
  by pat_completeness auto
termination
  by (relation "measure (\<lambda>(sep, s). length s)") (auto simp: neq_Nil_conv)

text \<open>\<open>xs[1]\<close> and \<open>xs[0]\<close> on the list a split returns.\<close>

definition item1 :: "'a list \<Rightarrow> pyexc + 'a" where
  "item1 xs = (case xs of _ # v # _ \<Rightarrow> Inr v | _ \<Rightarrow> Inl IndexError)"

definition item0 :: "'a list \<Rightarrow> pyexc + 'a" where
  "item0 xs = (case xs of v # _ \<Rightarrow> Inr v | _ \<Rightarrow> Inl IndexError)"

section \<open>Defaults and accepted values\<close>

definition d_intmethod :: string where "d_intmethod = ''full''"
definition d_xunit :: string where "d_xunit = ''2th_deg''"
definition d_rad_points :: int where "d_rad_points = 6000"
definition d_errormodel :: string where "d_errormodel = ''None''"
definition d_lines2skip :: nat where "d_lines2skip = 23"

definition intmethod_accepted :: "string list" where
  "intmethod_accepted = [''no'', ''full'', ''pseudo'', ''bbox'']"

definition xunit_accepted :: "string list" where
  "xunit_accepted = [''2th_deg'', ''2th_rad'', ''q_nm^-1'', ''q_A^-1'', ''q_a^-1'', ''r_mm'']"

definition neg_mask_accepted :: "string list" where
  "neg_mask_accepted = [''none'']"

definition errormodel_accepted :: "string list" where
  "errormodel_accepted = [''none'', ''poisson'']"

definition keyword_all_accepted :: "string list" where
  "keyword_all_accepted = [''ALL'', ''All'', ''all'']"

definition maskfext_accepted :: "string list" where
  "maskfext_accepted = [''.tif'', ''.edf'', ''.msk'', ''.npy'']"

section \<open>Output format and output file name\<close>


text \<open>\<open>oneD_name = oneD_toplace + os.sep + file.strip(image_extension) + oneD_extension\<close>,
  with \<open>os.sep\<close> a parameter.\<close>

definition oneD_name :: "string \<Rightarrow> string \<Rightarrow> string \<Rightarrow> string \<Rightarrow> string \<Rightarrow> string" where
  "oneD_name sep oneD_toplace file image_extension oneD_extension =
     oneD_toplace @ sep @ py_strip_chars image_extension file @ oneD_extension"

text \<open>The name the specification describes: the image extension at the end of the file
  name is replaced by the output extension.\<close>

definition replace_extension :: "string \<Rightarrow> string \<Rightarrow> string \<Rightarrow> string" where
  "replace_extension file image_extension oneD_extension =
     take (length file - length image_extension) file @ oneD_extension"

section \<open>Coercion of the enumerated parameters\<close>

text \<open>
  Each check returns the value the variable holds afterwards, with the warnings printed.
  The guided-entry checks are those of the first parameter prompt (the redo prompt repeats
  them); the load checks are those applied to the values read from an \<open>.int\<close> file.
\<close>

datatype warning =
  IntmethodNotAccepted | XunitNotAccepted | ErrormodelNotAccepted
  | MaskDoesNotExist | MaskUnacceptedFiletype

definition guided_intmethod :: "string \<Rightarrow> string \<times> warning list" where
  "guided_intmethod intmethod =
     (if intmethod = [] then (d_intmethod, [])
      else if intmethod \<notin> set intmethod_accepted \<and> py_lower intmethod \<notin> set intmethod_accepted
      then (d_intmethod, [IntmethodNotAccepted])
      else (py_lower intmethod, []))"

definition load_intmethod :: "string \<Rightarrow> string \<times> warning list" where
  "load_intmethod intmethod =
     (if intmethod \<notin> set intmethod_accepted \<and> py_lower intmethod \<notin> set intmethod_accepted
      then (intmethod, [IntmethodNotAccepted])
      else (intmethod, []))"

definition guided_xunit :: "string \<Rightarrow> string \<times> warning list" where
  "guided_xunit xunit =
     (if xunit = [] then (d_xunit, [])
      else if py_lower xunit = ''tth'' then (d_xunit, [])
      else if py_lower xunit = ''q'' then (''q_A^-1'', [])
      else if xunit \<notin> set xunit_accepted \<and> py_lower xunit \<notin> set xunit_accepted
      then (d_xunit, [XunitNotAccepted])
      else (py_lower xunit, []))"

definition load_xunit :: "string \<Rightarrow> string \<times> warning list" where
  "load_xunit xunit0 =
     (let xunit = (if py_lower xunit0 = ''tth'' then d_xunit else xunit0)
      in if py_lower xunit = ''q'' then (''q_A^-1'', [])
         else if xunit \<notin> set xunit_accepted \<and> py_lower xunit \<notin> set xunit_accepted
         then (xunit, [XunitNotAccepted])
         else (py_lower xunit, []))"

text \<open>The check of \<open>errormodel\<close> is the same text in both paths.  Its last branch, for a
  value that is not a string, cannot be reached: the value is always a string.\<close>

definition check_errormodel :: "string \<Rightarrow> string \<times> warning list" where
  "check_errormodel errormodel =
     (if errormodel = [] then (d_errormodel, [])
      else if errormodel \<in> set errormodel_accepted \<or> py_lower errormodel \<in> set errormodel_accepted
      then (py_lower errormodel, [])
      else (d_errormodel, [ErrormodelNotAccepted]))"

section \<open>Creation of the output directories\<close>

text \<open>
  The file system as far as \<open>os.mkdir\<close> sees it: the directories that exist, and the
  paths at which a creation is refused for another reason than existence.
\<close>

record dirs_state =
  existing :: "string set"
  refused :: "string set"

definition mkdir :: "dirs_state \<Rightarrow> string \<Rightarrow> dirs_state \<times> pyexc option" where
  "mkdir fs p =
     (if p \<in> existing fs then (fs, Some FileExistsError)
      else if p \<in> refused fs then (fs, Some PermissionError)
      else (fs\<lparr>existing := insert p (existing fs)\<rparr>, None))"

text \<open>\<open>os.path.join(a, b)\<close> for a relative name \<open>b\<close>.\<close>

definition path_join :: "string \<Rightarrow> string \<Rightarrow> string \<Rightarrow> string" where
  "path_join sep a b = (if a = [] \<or> suffix sep a then a @ b else a @ sep @ b)"

datatype exit_reason =
  MissingSubDirectories "string list"
  | KeywordsNotFormatted "string list"
  | PoniDoesNotExist | PoniUnacceptedFiletype | DataSourceNotAccepted
  | NoUserInput | UserDeclined

datatype failure = Exit exit_reason | Uncaught pyexc

text \<open>The loop over \<open>dirstoint\<close>: only \<open>FileExistsError\<close> is caught.\<close>

fun create_folders ::
  "string \<Rightarrow> string \<Rightarrow> dirs_state \<Rightarrow> string list \<Rightarrow> string list
     \<Rightarrow> dirs_state \<times> (pyexc + string list)" where
  "create_folders sep oneDdir fs [] oneD_folders = (fs, Inr oneD_folders)"
| "create_folders sep oneDdir fs (dir # rest) oneD_folders =
     (case mkdir fs (path_join sep oneDdir dir) of
        (fs', None) \<Rightarrow> create_folders sep oneDdir fs' rest (oneD_folders @ [dir])
      | (fs', Some FileExistsError) \<Rightarrow> create_folders sep oneDdir fs' rest (oneD_folders @ [dir])
      | (fs', Some e) \<Rightarrow> (fs', Inl e))"

text \<open>The loop followed by the comparison of the two lists.\<close>

definition reconcile ::
  "string \<Rightarrow> string \<Rightarrow> dirs_state \<Rightarrow> string list \<Rightarrow> dirs_state \<times> (failure + string list)" where
  "reconcile sep oneDdir fs dirstoint =
     (case create_folders sep oneDdir fs dirstoint [] of
        (fs', Inl e) \<Rightarrow> (fs', Inl (Uncaught e))
      | (fs', Inr oneD_folders) \<Rightarrow>
          if dirstoint \<noteq> oneD_folders
          then (fs', Inl (Exit (MissingSubDirectories
                  (filter (\<lambda>i. i \<notin> set oneD_folders) dirstoint))))
          else (fs', Inr oneD_folders))"

text \<open>What the specification describes: every creation is attempted, a failed one is
  not recorded, and the names that are not recorded are reported.\<close>

fun create_folders_spec ::
  "string \<Rightarrow> string \<Rightarrow> dirs_state \<Rightarrow> string list \<Rightarrow> string list
     \<Rightarrow> dirs_state \<times> string list" where
  "create_folders_spec sep oneDdir fs [] oneD_folders = (fs, oneD_folders)"
| "create_folders_spec sep oneDdir fs (dir # rest) oneD_folders =
     (case mkdir fs (path_join sep oneDdir dir) of
        (fs', None) \<Rightarrow> create_folders_spec sep oneDdir fs' rest (oneD_folders @ [dir])
      | (fs', Some FileExistsError) \<Rightarrow>
          create_folders_spec sep oneDdir fs' rest (oneD_folders @ [dir])
      | (fs', Some e) \<Rightarrow> create_folders_spec sep oneDdir fs' rest oneD_folders)"

definition reconcile_spec ::
  "string \<Rightarrow> string \<Rightarrow> dirs_state \<Rightarrow> string list \<Rightarrow> dirs_state \<times> (failure + string list)" where
  "reconcile_spec sep oneDdir fs dirstoint =
     (case create_folders_spec sep oneDdir fs dirstoint [] of
        (fs', oneD_folders) \<Rightarrow>
          if dirstoint \<noteq> oneD_folders
          then (fs', Inl (Exit (MissingSubDirectories
                  (filter (\<lambda>i. i \<notin> set oneD_folders) dirstoint))))
          else (fs', Inr oneD_folders))"

section \<open>The batch loop\<close>

text \<open>
  A post-processed pattern file: its column labels and its rows of numbers as printed.
  \<open>to_csv\<close> writes the labels as the first line and separates the fields by tabs.
\<close>

type_synonym oneD_table = "string list \<times> string list list"

text \<open>
  The state the loop updates: the counter, the names of the integrated images, and the
  pattern files written and post-processed so far, each under its name, in the order of
  writing.
\<close>

record batch =
  totalintcount :: nat
  intedimages :: "string list"
  oneD_files :: "(string \<times> oneD_table) list"

text \<open>
  What lies outside the script, each call of which may raise: the directory listing;
  \<open>pyFAI.load\<close>; \<open>fabio.open\<close>; \<open>integrate1d\<close>, which writes under the given name
  a file whose lines it returns here; and the reading of numeric rows by \<open>read_csv\<close>,
  with each number as \<open>to_csv\<close> prints it under the format \<open>%.8f\<close>.
\<close>

record batch_env =
  listdir :: "string \<Rightarrow> pyexc + string list"
  load_poni :: "string \<Rightarrow> pyexc option"
  open_image :: "string \<Rightarrow> pyexc option"
  integrate1d :: "string \<Rightarrow> string \<Rightarrow> pyexc + string list"
  read_rows :: "string list \<Rightarrow> pyexc + string list list"

datatype point = Start | Incremented | Appended

text \<open>\<open>int_dir\<close>: bound only for the three spellings the loop compares with.\<close>

definition int_dir :: "string \<Rightarrow> string \<Rightarrow> string \<Rightarrow> string \<Rightarrow> pyexc + string" where
  "int_dir sep synsrc tiff_dir folder =
     (if synsrc = ''NSLS-II'' then Inr (tiff_dir @ sep @ folder @ sep @ ''dark_sub'' @ sep)
      else if synsrc = ''APS'' \<or> synsrc = ''SSRL'' then Inr (tiff_dir @ sep @ folder @ sep)
      else Inl NameError)"

text \<open>
  The three statements after \<open>integrate1d\<close>: \<open>read_csv\<close> skips the first
  \<open>d_lines2skip\<close> lines of the file and reads the rows; the assignment of
  \<open>oneD_columns\<close> to the columns raises when their number differs from the number of
  labels; \<open>to_csv\<close> writes the table with the labels over the same name.
\<close>

definition post_process :: "batch_env \<Rightarrow> string list \<Rightarrow> string list \<Rightarrow> pyexc + oneD_table" where
  "post_process env oneD_columns written_lines =
     (case read_rows env (drop d_lines2skip written_lines) of
        Inl e \<Rightarrow> Inl e
      | Inr rows \<Rightarrow>
         if (case rows of [] \<Rightarrow> 0 | r # _ \<Rightarrow> length r) \<noteq> length oneD_columns
         then Inl ValueError
         else Inr (oneD_columns, rows))"

text \<open>
  The statements of the loop body between the increment and the append, for one image.
  \<open>oneD_extension\<close> and \<open>oneD_columns\<close> are bound only when one of the two error
  models was selected, and \<open>static_mask\<close> only when a mask file is given: otherwise
  their use raises.  The result is the name of the pattern file with what it holds after
  the post-processing.
\<close>

definition integrate_image ::
  "batch_env \<Rightarrow> string \<Rightarrow> string \<Rightarrow> string \<Rightarrow> string \<Rightarrow> (string \<times> string list) option
     \<Rightarrow> string option \<Rightarrow> string \<Rightarrow> pyexc + string \<times> oneD_table" where
  "integrate_image env sep idir oneD_toplace image_extension oneD_fmt fullmaskf file =
     (case open_image env (idir @ file) of
        Some e \<Rightarrow> Inl e
      | None \<Rightarrow>
         (case oneD_fmt of
            None \<Rightarrow> Inl NameError
          | Some (oneD_extension, oneD_columns) \<Rightarrow>
             (let name = oneD_name sep oneD_toplace file image_extension oneD_extension
              in if fullmaskf = None then Inl NameError
                 else case integrate1d env (idir @ file) name of
                        Inl e \<Rightarrow> Inl e
                      | Inr written_lines \<Rightarrow>
                         (case post_process env oneD_columns written_lines of
                            Inl e \<Rightarrow> Inl e
                          | Inr table \<Rightarrow> Inr (name, table)))))"

text \<open>
  The loop over the files of one directory.  The result lists the state after the
  increment and after the append for each image, and ends with the state reached or with
  the exception that left the loop.
\<close>

fun run_files ::
  "batch_env \<Rightarrow> string \<Rightarrow> string \<Rightarrow> string \<Rightarrow> string \<Rightarrow> (string \<times> string list) option
     \<Rightarrow> string option \<Rightarrow> string list \<Rightarrow> batch \<Rightarrow> (point \<times> batch) list \<times> (pyexc + batch)" where
  "run_files env sep idir oneD_toplace image_extension oneD_fmt fullmaskf [] s = ([], Inr s)"
| "run_files env sep idir oneD_toplace image_extension oneD_fmt fullmaskf (file # rest) s =
     (let s1 = s\<lparr>totalintcount := totalintcount s + 1\<rparr>
      in case integrate_image env sep idir oneD_toplace image_extension oneD_fmt fullmaskf file of
           Inl e \<Rightarrow> ([(Incremented, s1)], Inl e)
         | Inr written \<Rightarrow>
            (let s2 = s1\<lparr>intedimages := intedimages s1 @ [file],
                          oneD_files := oneD_files s1 @ [written]\<rparr>;
                 r = run_files env sep idir oneD_toplace image_extension oneD_fmt fullmaskf rest s2
             in ((Incremented, s1) # (Appended, s2) # fst r, snd r)))"

fun run_dirs ::
  "batch_env \<Rightarrow> string \<Rightarrow> string \<Rightarrow> string \<Rightarrow> string \<Rightarrow> string \<Rightarrow> (string \<times> string list) option
     \<Rightarrow> string option \<Rightarrow> string list \<Rightarrow> batch \<Rightarrow> (point \<times> batch) list \<times> (pyexc + batch)" where
  "run_dirs env sep synsrc tiff_dir oneDdir image_extension oneD_fmt fullmaskf [] s =
     ([], Inr s)"
| "run_dirs env sep synsrc tiff_dir oneDdir image_extension oneD_fmt fullmaskf
       (folder # rest) s =
     (case int_dir sep synsrc tiff_dir folder of
        Inl e \<Rightarrow> ([], Inl e)
      | Inr idir \<Rightarrow>
         (case listdir env idir of
            Inl e \<Rightarrow> ([], Inl e)
          | Inr names \<Rightarrow>
             (let ftoint = filter (\<lambda>f. py_endswith f image_extension) names;
                  r = run_files env sep idir (oneDdir @ sep @ folder @ sep) image_extension
                        oneD_fmt fullmaskf ftoint s
              in case snd r of
                   Inl e \<Rightarrow> (fst r, Inl e)
                 | Inr s' \<Rightarrow>
                    (let r' = run_dirs env sep synsrc tiff_dir oneDdir image_extension
                                oneD_fmt fullmaskf rest s'
                     in (fst r @ fst r', snd r')))))"

text \<open>The Execute step from the two initialisations on; \<open>oneD_fmt\<close> holds
  \<open>oneD_extension\<close> and \<open>oneD_columns\<close> when they are bound.\<close>

definition execute ::
  "batch_env \<Rightarrow> string \<Rightarrow> string \<Rightarrow> string \<Rightarrow> string \<Rightarrow> string \<Rightarrow> (string \<times> string list) option
     \<Rightarrow> string option \<Rightarrow> string list \<Rightarrow> (point \<times> batch) list \<times> (pyexc + batch)" where
  "execute env sep synsrc tiff_dir oneDdir image_extension oneD_fmt fullmaskf dirstoint =
     (let s0 = \<lparr>totalintcount = 0, intedimages = [], oneD_files = []\<rparr>;
          r = run_dirs env sep synsrc tiff_dir oneDdir image_extension oneD_fmt
                fullmaskf dirstoint s0
      in ((Start, s0) # fst r, snd r))"




text \<open>The relation between the counter and the list at the points of the loop: after
  the increment that opens the processing of an image the counter is one ahead, at every
  other point the two agree.\<close>

definition in_step :: "point \<times> batch \<Rightarrow> bool" where
  "in_step pt = (case pt of (p, t) \<Rightarrow>
     (p = Incremented \<longrightarrow> totalintcount t = length (intedimages t) + 1) \<and>
     (p \<noteq> Incremented \<longrightarrow> totalintcount t = length (intedimages t)))"

definition at_rest :: "pyexc + batch \<Rightarrow> bool" where
  "at_rest r = (case r of Inl e \<Rightarrow> True | Inr t \<Rightarrow> totalintcount t = length (intedimages t))"

text \<open>
  A directory listing with one image and one other file; an integration that writes 23
  lines of preamble and one row of two numbers, or of three when the name ends in
  \<open>.xye\<close>; and a reader that knows these rows.
\<close>

definition demo_env :: batch_env where
  "demo_env =
     \<lparr>listdir = (\<lambda>d. Inr [''a.tif'', ''notes.txt'']),
      load_poni = (\<lambda>p. None),
      open_image = (\<lambda>p. None),
      integrate1d = (\<lambda>p n. Inr (replicate 23 ''# pyFAI'' @
                       [if py_endswith n ''.xye'' then ''1.5 20.25 4.5'' else ''1.5 20.25''])),
      read_rows = (\<lambda>ls. if ls = [''1.5 20.25''] then Inr [[''1.50000000'', ''20.25000000'']]
                         else if ls = [''1.5 20.25 4.5'']
                         then Inr [[''1.50000000'', ''20.25000000'', ''4.50000000'']]
                         else Inl ValueError)\<rparr>"

section \<open>Reading an \<open>.int\<close> file\<close>

subsection \<open>Lines, banners and keywords\<close>

text \<open>
  \<open>[line for line in open(intfname_user)]\<close>: the text is cut after every line feed,
  and each line keeps its line feed.  In text mode a carriage return, alone or before a
  line feed, is read as a line feed.
\<close>

fun universal_newlines :: "string \<Rightarrow> string" where
  "universal_newlines [] = []"
| "universal_newlines (c # cs) =
     (if c = CHR 0x0D
      then (case cs of
              d # ds \<Rightarrow> if d = CHR 0x0A then CHR 0x0A # universal_newlines ds
                        else CHR 0x0A # universal_newlines cs
            | [] \<Rightarrow> [CHR 0x0A])
      else c # universal_newlines cs)"

fun py_lines :: "string \<Rightarrow> string list" where
  "py_lines [] = []"
| "py_lines (c # cs) =
     (if c = CHR 0x0A then [c] # py_lines cs
      else (case py_lines cs of
              [] \<Rightarrow> [[c]]
            | l # ls \<Rightarrow> (c # l) # ls))"

definition read_lines :: "string \<Rightarrow> string list" where
  "read_lines text = py_lines (universal_newlines text)"

definition keyworddict_keys :: "string list" where
  "keyworddict_keys =
     [''Data from NSLS-II, APS, or SSRL'',
      ''Main integrated pattern directory'',
      ''Poni file'',
      ''Mask file'',
      ''Pixel splitting method'',
      ''X unit'',
      ''Radial (x-unit) points'',
      ''Radial (x-unit) range'',
      ''Azimuthal (deg.) range'',
      ''Automask pixel value'',
      ''Intensity error model'']"

definition editstartstr :: string where
  "editstartstr = ''Integration parameters and setup.''"

definition editendstr :: string where
  "editendstr = ''User notes / metadata allowed below here:''"

text \<open>The number of the first line that contains a text, counting from \<open>n\<close>.\<close>

fun first_line :: "string \<Rightarrow> string list \<Rightarrow> nat \<Rightarrow> nat option" where
  "first_line str [] n = None"
| "first_line str (line # rest) n =
     (if py_in str line then Some n else first_line str rest (Suc n))"

text \<open>\<open>not editstartnum\<close> holds for \<open>None\<close> and for the line number 0.\<close>

definition falsy :: "nat option \<Rightarrow> bool" where
  "falsy n = (n = None \<or> n = Some 0)"

text \<open>A value of \<open>keyworddict\<close>: still \<open>None\<close>, a line number, or \<open>'N/A'\<close>.\<close>

datatype kwval = Unset | Line nat | NA

text \<open>\<open>s.find(sub)\<close>: the index of the first occurrence, or \<open>-1\<close>.\<close>

definition find_int :: "string \<Rightarrow> string \<Rightarrow> int" where
  "find_int sub s = (case py_find sub s of None \<Rightarrow> - 1 | Some n \<Rightarrow> int n)"

text \<open>
  The inner loop for one keyword when the start banner was not found.  The assignment
  of \<open>'N/A'\<close> stands inside the loop: it is made once for every line passed without a
  match, and not at all when there is no line.
\<close>

fun scan_whole_file :: "string \<Rightarrow> string list \<Rightarrow> nat \<Rightarrow> kwval \<Rightarrow> kwval" where
  "scan_whole_file i [] num v = v"
| "scan_whole_file i (line # rest) num v =
     (if py_in i line
      then (if CHR ''#'' \<in> set line
            then (if find_int ''#'' line < find_int i line
                  then scan_whole_file i rest (Suc num) NA
                  else if find_int ''#'' line > find_int i line
                  then Line num
                  else scan_whole_file i rest (Suc num) NA)
            else Line num)
      else scan_whole_file i rest (Suc num) NA)"

text \<open>The inner loop for one keyword inside the section; here the assignment of
  \<open>'N/A'\<close> follows the loop.\<close>

fun scan_lines :: "string \<Rightarrow> nat \<Rightarrow> nat \<Rightarrow> string list \<Rightarrow> nat \<Rightarrow> nat option" where
  "scan_lines i editstartnum editendnum [] num = None"
| "scan_lines i editstartnum editendnum (line # rest) num =
     (if editstartnum \<le> num \<and> num \<le> editendnum \<and> py_in i line then Some num
      else scan_lines i editstartnum editendnum rest (Suc num))"

definition scan_section :: "string \<Rightarrow> nat \<Rightarrow> nat \<Rightarrow> string list \<Rightarrow> kwval" where
  "scan_section i editstartnum editendnum intlines =
     (case scan_lines i editstartnum editendnum intlines 0 of
        None \<Rightarrow> NA
      | Some num \<Rightarrow> Line num)"

text \<open>The dictionary after both scans, in the order of its keys.\<close>

definition fill_keyworddict :: "string list \<Rightarrow> (string \<times> kwval) list" where
  "fill_keyworddict intlines =
     (let editstartnum = first_line editstartstr intlines 0;
          editendnum0 = first_line editendstr intlines 0;
          editendnum = (if falsy editendnum0 then length intlines else the editendnum0)
      in if falsy editstartnum
         then map (\<lambda>i. (i, scan_whole_file i intlines 0 Unset)) keyworddict_keys
         else map (\<lambda>i. (i, scan_section i (the editstartnum) editendnum intlines)) keyworddict_keys)"

text \<open>The check that every keyword was found: the keywords marked \<open>'N/A'\<close> are
  printed and the program exits.\<close>

definition locate_keywords :: "string list \<Rightarrow> failure + (string \<times> kwval) list" where
  "locate_keywords intlines =
     (let keyworddict = fill_keyworddict intlines
      in if NA \<in> set (map snd keyworddict)
         then Inl (Exit (KeywordsNotFormatted
                 (map fst (filter (\<lambda>kv. snd kv = NA) keyworddict))))
         else Inr keyworddict)"

text \<open>\<open>intlines[keyworddict[key]]\<close>: a list index must be an integer.\<close>

definition keyword_line :: "(string \<times> kwval) list \<Rightarrow> string list \<Rightarrow> string \<Rightarrow> pyexc + string" where
  "keyword_line keyworddict intlines key =
     (case map_of keyworddict key of
        None \<Rightarrow> Inl KeyError
      | Some Unset \<Rightarrow> Inl TypeError
      | Some NA \<Rightarrow> Inl TypeError
      | Some (Line num) \<Rightarrow> (if num < length intlines then Inr (intlines ! num) else Inl IndexError))"

subsection \<open>The value on a keyword line\<close>

text \<open>
  The three path keywords are split at the keyword followed by its colon, the other
  eight at the first colon of the line.  The second piece is taken, cut at the first
  \<open>#\<close>, and stripped of white space at both ends.
\<close>

definition explicit_split_keywords :: "string list" where
  "explicit_split_keywords = [''Main integrated pattern directory'', ''Poni file'', ''Mask file'']"

definition strip_comment :: "string \<Rightarrow> pyexc + string" where
  "strip_comment v = (if CHR ''#'' \<in> set v then item0 (py_split ''#'' v) else Inr v)"

definition extract_value :: "string \<Rightarrow> string \<Rightarrow> pyexc + string" where
  "extract_value key line =
     (case item1 (py_split (if key \<in> set explicit_split_keywords then key @ '':'' else '':'')
                    (py_strip_chars [CHR 0x0A] line)) of
        Inl e \<Rightarrow> Inl e
      | Inr v \<Rightarrow> (case strip_comment v of
                    Inl e \<Rightarrow> Inl e
                  | Inr w \<Rightarrow> Inr (py_strip w)))"

text \<open>The value as the specification describes it, for every keyword: all the text after
  the first occurrence of the keyword with its colon, up to a \<open>#\<close>, stripped.\<close>

definition after_first :: "string \<Rightarrow> string \<Rightarrow> string option" where
  "after_first lit s = (case py_find lit s of None \<Rightarrow> None | Some n \<Rightarrow> Some (drop (n + length lit) s))"

definition spec_value :: "string \<Rightarrow> string \<Rightarrow> string option" where
  "spec_value key line =
     map_option (\<lambda>v. py_strip (takeWhile (\<lambda>c. c \<noteq> CHR ''#'') v))
       (after_first (key @ '':'') (py_strip_chars [CHR 0x0A] line))"

section \<open>Python values and library functions\<close>

text \<open>
  The values \<open>ast.literal_eval\<close> can return, with the floating-point numbers left as
  a type parameter.  The functions of the Python library that read and print numbers
  are not part of the script: they are taken as parameters.
\<close>

datatype 'f pyval =
  PNone | PBool bool | PInt int | PFloat 'f | PComplex 'f 'f
  | PStr string | PBytes string
  | PTuple "'f pyval list" | PList "'f pyval list" | PSet "'f pyval list"
  | PDict "('f pyval \<times> 'f pyval) list"

record 'f pylib =
  literal_eval :: "string \<Rightarrow> pyexc + 'f pyval"
  py_str :: "'f pyval \<Rightarrow> string"
  int_of_str :: "string \<Rightarrow> pyexc + int"
  str_of_int :: "int \<Rightarrow> string"
  float_of_str :: "string \<Rightarrow> pyexc + 'f"
  float_of_int :: "int \<Rightarrow> pyexc + 'f"
  dict_item :: "('f pyval \<times> 'f pyval) list \<Rightarrow> nat \<Rightarrow> pyexc + 'f pyval"
  d_neg_mask :: "'f"

text \<open>\<open>str(x)\<close> where the script prints a variable that holds \<open>None\<close>, a string or
  another value.\<close>

definition str_value :: "'f pylib \<Rightarrow> 'f pyval \<Rightarrow> string" where
  "str_value L v = (case v of PNone \<Rightarrow> ''None'' | PStr s \<Rightarrow> s | _ \<Rightarrow> py_str L v)"

text \<open>\<open>len(x)\<close>, \<open>x[i]\<close> and the test \<open>type(x) != float and type(x) != int\<close>.\<close>

definition py_len :: "'f pyval \<Rightarrow> pyexc + nat" where
  "py_len v =
     (case v of
        PStr s \<Rightarrow> Inr (length s)
      | PBytes s \<Rightarrow> Inr (length s)
      | PTuple xs \<Rightarrow> Inr (length xs)
      | PList xs \<Rightarrow> Inr (length xs)
      | PSet xs \<Rightarrow> Inr (length xs)
      | PDict kvs \<Rightarrow> Inr (length kvs)
      | _ \<Rightarrow> Inl TypeError)"

definition py_item :: "'f pylib \<Rightarrow> 'f pyval \<Rightarrow> nat \<Rightarrow> pyexc + 'f pyval" where
  "py_item L v i =
     (case v of
        PStr s \<Rightarrow> (if i < length s then Inr (PStr [s ! i]) else Inl IndexError)
      | PBytes s \<Rightarrow> (if i < length s then Inr (PInt (of_char (s ! i))) else Inl IndexError)
      | PTuple xs \<Rightarrow> (if i < length xs then Inr (xs ! i) else Inl IndexError)
      | PList xs \<Rightarrow> (if i < length xs then Inr (xs ! i) else Inl IndexError)
      | PDict kvs \<Rightarrow> dict_item L kvs i
      | _ \<Rightarrow> Inl TypeError)"

definition not_float_or_int :: "'f pyval \<Rightarrow> bool" where
  "not_float_or_int v = (case v of PInt _ \<Rightarrow> False | PFloat _ \<Rightarrow> False | _ \<Rightarrow> True)"

definition any_isdigit :: "string \<Rightarrow> bool" where
  "any_isdigit s = (True \<in> set (map py_isdigit s))"

section \<open>Coercion of the ranges and of the automask value\<close>

datatype range_warning =
  LowerLimitType | UpperLimitType | SingleValue | RangeNotAccepted | RangeOperandType

text \<open>
  The body of the \<open>try\<close> block in the check of a range, applied to the value that
  \<open>literal_eval\<close> returned.  The result is the value of the variable afterwards, or the
  exception raised.
\<close>

definition range_try_body :: "'f pylib \<Rightarrow> 'f pyval \<Rightarrow> pyexc + 'f pyval \<times> range_warning list" where
  "range_try_body L r =
     (if r = PNone then Inr (PNone, [])
      else case py_len r of
        Inl e \<Rightarrow> Inl e
      | Inr n \<Rightarrow>
         if n > 1 then
           (case py_item L r 0 of
              Inl e \<Rightarrow> Inl e
            | Inr r0 \<Rightarrow>
               if not_float_or_int r0 then Inr (PNone, [LowerLimitType])
               else (case py_item L r 1 of
                       Inl e \<Rightarrow> Inl e
                     | Inr r1 \<Rightarrow>
                        if not_float_or_int r1 then Inr (PNone, [UpperLimitType])
                        else Inr (r, [])))
         else if n = 1 then Inr (PNone, [SingleValue])
         else Inr (r, []))"

text \<open>The check of \<open>rad_range\<close> and of \<open>azim_range\<close> (the same text, in both paths).
  Only \<open>TypeError\<close> is caught.\<close>

definition check_range :: "'f pylib \<Rightarrow> string \<Rightarrow> failure + 'f pyval \<times> range_warning list" where
  "check_range L raw =
     (if raw = [] then Inr (PNone, [])
      else if raw = ''none'' \<or> py_lower raw = ''none'' then Inr (PNone, [])
      else if any_isdigit raw then
        (case literal_eval L raw of
           Inl e \<Rightarrow> (if e = TypeError then Inr (PNone, [RangeNotAccepted]) else Inl (Uncaught e))
         | Inr r \<Rightarrow>
            (case range_try_body L r of
               Inl e \<Rightarrow> (if e = TypeError then Inr (PNone, [RangeNotAccepted]) else Inl (Uncaught e))
             | Inr res \<Rightarrow> Inr res))
      else Inr (PNone, [RangeOperandType]))"

datatype automask_warning =
  ConvertingToFloat | AutomaskTurnedOff | CannotConvert | AutomaskNotAccepted

text \<open>
  The body of the \<open>try\<close> block in the check of \<open>neg_mask\<close>.  The comparison of the
  value with the types \<open>float\<close> and \<open>int\<close> is always unequal, so its \<open>else\<close> branch
  is never taken; \<open>.lower()\<close> on a number raises \<open>AttributeError\<close>.
\<close>

definition automask_try_body ::
  "'f pylib \<Rightarrow> 'f pyval \<Rightarrow> pyexc + 'f pyval \<times> automask_warning list" where
  "automask_try_body L v0 =
     (if v0 = PNone then Inr (PNone, [])
      else
        (case (case v0 of
                 PStr s \<Rightarrow>
                   if any_isdigit s
                   then (case float_of_str L s of
                           Inl e \<Rightarrow> Inl e
                         | Inr x \<Rightarrow> Inl AttributeError)
                   else Inr (v0, if s \<in> set neg_mask_accepted \<or> py_lower s \<in> set neg_mask_accepted
                                 then [AutomaskTurnedOff] else [])
               | _ \<Rightarrow> Inr (v0, [])) of
           Inl e \<Rightarrow> Inl e
         | Inr (v, ws) \<Rightarrow>
            (case v of
               PFloat x \<Rightarrow> Inr (PFloat x, ws)
             | PInt n \<Rightarrow> (case float_of_int L n of
                            Inl e \<Rightarrow> Inl e
                          | Inr x \<Rightarrow> Inr (PFloat x, ws))
             | _ \<Rightarrow> Inr (PFloat (d_neg_mask L), ws @ [CannotConvert]))))"

text \<open>The check of \<open>neg_mask\<close>.  A text without a digit that is not \<open>none\<close> passes
  unchanged: the test for a digit has no \<open>else\<close> branch.\<close>

definition check_neg_mask ::
  "'f pylib \<Rightarrow> string \<Rightarrow> failure + 'f pyval \<times> automask_warning list" where
  "check_neg_mask L raw =
     (if raw = [] then Inr (PFloat (d_neg_mask L), [])
      else if raw = ''none'' \<or> py_lower raw = ''none'' then Inr (PNone, [])
      else if any_isdigit raw then
        (case literal_eval L raw of
           Inl e \<Rightarrow> (if e = TypeError then Inr (PFloat (d_neg_mask L), [AutomaskNotAccepted])
                     else Inl (Uncaught e))
         | Inr v0 \<Rightarrow>
            (case automask_try_body L v0 of
               Inl e \<Rightarrow> (if e = TypeError then Inr (PFloat (d_neg_mask L), [AutomaskNotAccepted])
                         else Inl (Uncaught e))
             | Inr res \<Rightarrow> Inr res))
      else Inr (PStr raw, []))"

section \<open>Loading a configuration\<close>

text \<open>The variables that make up the configuration once the load branch has run.\<close>

record 'f int_config =
  c_synsrc :: string
  c_oneDdir :: string
  c_fullponif :: string
  c_fullmaskf :: "string option"
  c_intmethod :: string
  c_xunit :: string
  c_rad_points :: int
  c_rad_range :: "'f pyval"
  c_azim_range :: "'f pyval"
  c_neg_mask :: "'f pyval"
  c_errormodel :: string

definition and_then :: "failure + 'a \<Rightarrow> ('a \<Rightarrow> failure + 'b) \<Rightarrow> failure + 'b" where
  "and_then m f = (case m of Inl e \<Rightarrow> Inl e | Inr v \<Rightarrow> f v)"

definition raised :: "pyexc + 'a \<Rightarrow> failure + 'a" where
  "raised m = (case m of Inl e \<Rightarrow> Inl (Uncaught e) | Inr v \<Rightarrow> Inr v)"

definition read_value :: "(string \<times> kwval) list \<Rightarrow> string list \<Rightarrow> string \<Rightarrow> failure + string" where
  "read_value keyworddict intlines key =
     raised (case keyword_line keyworddict intlines key of
               Inl e \<Rightarrow> Inl e
             | Inr line \<Rightarrow> extract_value key line)"

text \<open>
  The two checks of the mask file, one after the other.  The second calls \<open>endswith\<close>
  on the variable whatever the first has made of it.  \<open>files\<close> is the set of paths at
  which \<open>os.path.isfile\<close> holds.
\<close>

definition check_mask :: "string set \<Rightarrow> string \<Rightarrow> pyexc + string option \<times> warning list" where
  "check_mask files fullmaskf0 =
     (let (fullmaskf, ws) = (if fullmaskf0 \<notin> files then (None, [MaskDoesNotExist])
                             else (Some fullmaskf0, []))
      in case fullmaskf of
           None \<Rightarrow> Inl AttributeError
         | Some m \<Rightarrow>
            if \<not> list_ex (\<lambda>ext. py_endswith m ext) maskfext_accepted
            then Inr (None, ws @ [MaskUnacceptedFiletype])
            else Inr (Some m, ws))"

definition check_poni :: "string set \<Rightarrow> string \<Rightarrow> failure + unit" where
  "check_poni files fullponif =
     (if fullponif \<notin> files then Inl (Exit PoniDoesNotExist)
      else if \<not> py_endswith fullponif ''.poni'' then Inl (Exit PoniUnacceptedFiletype)
      else Inr ())"

definition image_extension_for :: "string \<Rightarrow> failure + string" where
  "image_extension_for synsrc =
     (if synsrc = ''NSLS-II'' \<or> py_lower synsrc = ''nsls-ii'' then Inr ''.tiff''
      else if synsrc = ''APS'' \<or> synsrc = ''SSRL'' \<or> py_lower synsrc = ''aps''
              \<or> py_lower synsrc = ''ssrl'' then Inr ''.tif''
      else Inl (Exit DataSourceNotAccepted))"

text \<open>The load branch from the list of lines to the checked variables, in the order of
  the script.\<close>

definition load_int :: "'f pylib \<Rightarrow> string set \<Rightarrow> string list \<Rightarrow> failure + 'f int_config" where
  "load_int L files intlines =
     and_then (locate_keywords intlines) (\<lambda>kd.
     and_then (read_value kd intlines ''Data from NSLS-II, APS, or SSRL'') (\<lambda>synsrc.
     and_then (read_value kd intlines ''Main integrated pattern directory'') (\<lambda>oneDdir.
     and_then (read_value kd intlines ''Poni file'') (\<lambda>fullponif.
     and_then (read_value kd intlines ''Mask file'') (\<lambda>fullmaskf0.
     and_then (read_value kd intlines ''Pixel splitting method'') (\<lambda>intmethod0.
     and_then (read_value kd intlines ''X unit'') (\<lambda>xunit0.
     and_then (read_value kd intlines ''Radial (x-unit) points'') (\<lambda>rad_points0.
     and_then (read_value kd intlines ''Radial (x-unit) range'') (\<lambda>rad_range0.
     and_then (read_value kd intlines ''Azimuthal (deg.) range'') (\<lambda>azim_range0.
     and_then (read_value kd intlines ''Automask pixel value'') (\<lambda>neg_mask0.
     and_then (read_value kd intlines ''Intensity error model'') (\<lambda>errormodel0.
     and_then (check_poni files fullponif) (\<lambda>_.
     and_then (raised (check_mask files fullmaskf0)) (\<lambda>fullmaskf.
     and_then (image_extension_for synsrc) (\<lambda>image_extension.
     and_then (raised (int_of_str L rad_points0)) (\<lambda>rad_points.
     and_then (check_range L rad_range0) (\<lambda>rad_range.
     and_then (check_range L azim_range0) (\<lambda>azim_range.
     and_then (check_neg_mask L neg_mask0) (\<lambda>neg_mask.
       Inr \<lparr>c_synsrc = synsrc, c_oneDdir = oneDdir, c_fullponif = fullponif,
            c_fullmaskf = fst fullmaskf,
            c_intmethod = fst (load_intmethod intmethod0),
            c_xunit = fst (load_xunit xunit0),
            c_rad_points = rad_points,
            c_rad_range = fst rad_range, c_azim_range = fst azim_range,
            c_neg_mask = fst neg_mask,
            c_errormodel = fst (check_errormodel errormodel0)\<rparr>)))))))))))))))))))"

section \<open>Writing the \<open>.int\<close> file, the confirmation, the batch and the record\<close>

definition Version :: string where "Version = ''0.1''"

definition hashes :: string where "hashes = replicate 150 (CHR ''#'')"

text \<open>\<open>str(fullmaskf)\<close>\<close>

definition str_mask :: "string option \<Rightarrow> string" where
  "str_mask m = (case m of None \<Rightarrow> ''None'' | Some s \<Rightarrow> s)"

text \<open>The texts joined from their pieces, as \<open>''.join([...])\<close> does.  The date, the time
  and the year come from the clock.\<close>

definition GI_statement :: "string \<Rightarrow> string \<Rightarrow> string \<Rightarrow> string" where
  "GI_statement datestr timestr year = concat
     [[CHR 0x0A] @ ''#Date: '',
      datestr,
      [CHR 0x0A] @ ''#Time: '',
      timestr,
      [CHR 0x0A] @ ''#Version: '',
      Version,
      [CHR 0x0A] @ ''#Github: github.com/adamcorrao/GuidedIntegration'' @ [CHR 0x0A] @ ''#Citation: Guided Integration Version '',
      Version,
      '' ('',
      year,
      ''). https://github.com/adamcorrao/GuidedIntegration'',
      [CHR 0x0A] @ ''#Citation for latest paper on pyFAI: Kieffer, J., Valls, V., Blanc, N. & Hennig, C. (2020). J. Synchrotron Rad. 27, 558-566.'']"

definition desc_statement :: string where
  "desc_statement = concat
     [[CHR 0x0A, CHR 0x0A] @ ''#Description of parameters, options available, acceptable operand / filetypes (Guided Integration formats this correctly):'',
      [CHR 0x0A, CHR 0x09] @ ''#Data from NSLS-II, APS, or SSRL: where was data collected? Expected image extensions are .tiff for NSLS-II and .tif for APS / SSRL. NSLS-II images expected in sub directory '' @ [CHR 0x27] @ ''dark_sub'' @ [CHR 0x27],
      [CHR 0x0A, CHR 0x09] @ ''#Main integrated pattern directory: directory where sub directories are created in which integrated patterns are saved'',
      [CHR 0x0A, CHR 0x09] @ ''#Poni file: instrument geometry (e.g., sample-to-detector distance, detector tilts) file - filetype must be .poni'',
      [CHR 0x0A, CHR 0x09] @ ''#Mask file: static mask (e.g., beamstop, detector edges) - must be one of the following filetypes: *.tif | *.edf | *.npy | *.msk'',
      [CHR 0x0A, CHR 0x0A] @ ''#Integration parameters (see pyFAI docs for more details):'',
      [CHR 0x0A, CHR 0x09] @ ''#Pixel splitting options: no (no splitting), full (full splitting), bbox (bounding box), pseudo (scaled down bbox)'',
      [CHR 0x0A, CHR 0x09] @ ''#X unit options: 2th_deg, 2th_rad, q_nm^-1, q_A^-1, d*2_A^-2, r_mm'',
      [CHR 0x0A, CHR 0x09] @ ''#Radial (x-unit) points: the number of bins in the x-axis - must be a number'',
      [CHR 0x0A, CHR 0x09] @ ''#Radial (x-unit) range: radial range to integrate image over (x-unit specific) - must be a pair of comma separated numbers or None for full range'',
      [CHR 0x0A, CHR 0x09] @ ''#Azimuthal (deg.) range: azimuthal (deg.) range to integrate image over - must be a pair of comma separated numbers or None for full range'',
      [CHR 0x0A, CHR 0x09] @ ''#Automask pixel value: pixels with intensity less than this value are automatically masked - must be a number'',
      [CHR 0x0A, CHR 0x09] @ ''#Intensity error model options: none, poisson for variance = I'']"

definition int_setup_statement :: "'f int_config \<Rightarrow> string" where
  "int_setup_statement cfg = concat
     [[CHR 0x0A, CHR 0x0A],
      hashes,
      [CHR 0x0A] @ ''Integration parameters and setup.'' @ [CHR 0x0A] @ ''Below here user can edit parameters after the colon. '',
      ''In-line comments are allowed.'' @ [CHR 0x0A],
      hashes,
      [CHR 0x0A, CHR 0x0A] @ ''Data from NSLS-II, APS, or SSRL: '',
      c_synsrc cfg,
      [CHR 0x0A] @ ''Main integrated pattern directory: '',
      c_oneDdir cfg,
      [CHR 0x0A] @ ''Poni file: '',
      c_fullponif cfg,
      [CHR 0x0A] @ ''Mask file: '',
      str_mask (c_fullmaskf cfg)]"

definition intprm_statement :: "'f pylib \<Rightarrow> 'f int_config \<Rightarrow> string" where
  "intprm_statement L cfg = concat
     [[CHR 0x0A, CHR 0x0A] @ ''Pixel splitting method: '',
      c_intmethod cfg,
      [CHR 0x0A] @ ''X unit: '',
      c_xunit cfg,
      [CHR 0x0A] @ ''Radial (x-unit) points: '',
      str_of_int L (c_rad_points cfg),
      [CHR 0x0A] @ ''Radial (x-unit) range: '',
      str_value L (c_rad_range cfg),
      [CHR 0x0A] @ ''Azimuthal (deg.) range: '',
      str_value L (c_azim_range cfg),
      [CHR 0x0A] @ ''Automask pixel value: '',
      str_value L (c_neg_mask cfg),
      [CHR 0x0A] @ ''Intensity error model: '',
      c_errormodel cfg]"

definition usernotes_statement :: string where
  "usernotes_statement = concat
     [[CHR 0x0A, CHR 0x0A],
      hashes,
      [CHR 0x0A] @ ''User notes / metadata allowed below here:'' @ [CHR 0x0A],
      hashes]"

text \<open>Everything written to the \<open>.int\<close> file, in the order of the \<open>write\<close> calls.\<close>

definition int_file_text ::
  "'f pylib \<Rightarrow> string \<Rightarrow> string \<Rightarrow> string \<Rightarrow> 'f int_config \<Rightarrow> string" where
  "int_file_text L datestr timestr year cfg =
     ''#Guided Integration .int parameter file'' @ GI_statement datestr timestr year
       @ desc_statement @ int_setup_statement cfg @ intprm_statement L cfg
       @ usernotes_statement"








text \<open>A library, with floats written as pairs of a mantissa and a decimal exponent, that
  knows a handful of texts, and two configurations.\<close>

definition demo_lib :: "(int \<times> int) pylib" where
  "demo_lib =
     \<lparr>literal_eval = (\<lambda>s. if s = ''(0.0, 15.4)'' then Inr (PTuple [PFloat (0, 0), PFloat (154, - 1)])
                          else if s = ''(0, 180)'' then Inr (PTuple [PInt 0, PInt 180])
                          else if s = ''-1e-10'' then Inr (PFloat (- 1, - 10))
                          else Inl SyntaxError),
      py_str = (\<lambda>v. if v = PTuple [PFloat (0, 0), PFloat (154, - 1)] then ''(0.0, 15.4)''
                    else if v = PTuple [PInt 0, PInt 180] then ''(0, 180)''
                    else if v = PFloat (- 1, - 10) then ''-1e-10'' else ''?''),
      int_of_str = (\<lambda>s. if s = ''6000'' then Inr 6000 else Inl ValueError),
      str_of_int = (\<lambda>n. if n = 6000 then ''6000'' else ''?''),
      float_of_str = (\<lambda>s. Inl ValueError),
      float_of_int = (\<lambda>n. Inr (n, 0)),
      dict_item = (\<lambda>kvs i. Inl KeyError),
      d_neg_mask = (- 1, - 10)\<rparr>"

definition demo_cfg :: "(int \<times> int) int_config" where
  "demo_cfg =
     \<lparr>c_synsrc = ''APS'', c_oneDdir = ''C:/data/1D'', c_fullponif = ''C:/data/geo.poni'',
      c_fullmaskf = Some ''C:/data/mask.npy'', c_intmethod = ''full'', c_xunit = ''q_A^-1'',
      c_rad_points = 6000, c_rad_range = PTuple [PFloat (0, 0), PFloat (154, - 1)],
      c_azim_range = PNone, c_neg_mask = PFloat (- 1, - 10), c_errormodel = ''None''\<rparr>"

definition demo_cfg2 :: "(int \<times> int) int_config" where
  "demo_cfg2 =
     \<lparr>c_synsrc = ''NSLS-II'', c_oneDdir = ''/data/My Patterns'', c_fullponif = ''/data/geo.poni'',
      c_fullmaskf = Some ''/data/mask.edf'', c_intmethod = ''bbox'', c_xunit = ''2th_deg'',
      c_rad_points = 6000, c_rad_range = PNone,
      c_azim_range = PTuple [PInt 0, PInt 180], c_neg_mask = PNone, c_errormodel = ''poisson''\<rparr>"

section \<open>The lines of a written \<open>.int\<close> file\<close>

text \<open>A line that holds a label, a colon, a blank and a text; and the line of the
  citation, with the year.\<close>

definition kv_line :: "string \<Rightarrow> string \<Rightarrow> string" where
  "kv_line label t = label @ '': '' @ t @ [CHR 0x0A]"

definition year_line :: "string \<Rightarrow> string" where
  "year_line year =
     ''#Citation: Guided Integration Version 0.1 ('' @ year
       @ ''). https://github.com/adamcorrao/GuidedIntegration'' @ [CHR 0x0A]"

text \<open>The lines above the start banner.\<close>

definition head_lines :: "string \<Rightarrow> string \<Rightarrow> string \<Rightarrow> string list" where
  "head_lines datestr timestr year =
     [''#Guided Integration .int parameter file'' @ [CHR 0x0A],
      kv_line ''#Date'' datestr,
      kv_line ''#Time'' timestr,
      ''#Version: 0.1'' @ [CHR 0x0A],
      ''#Github: github.com/adamcorrao/GuidedIntegration'' @ [CHR 0x0A],
      year_line year,
      ''#Citation for latest paper on pyFAI: Kieffer, J., Valls, V., Blanc, N. & Hennig, C. (2020). J. Synchrotron Rad. 27, 558-566.'' @ [CHR 0x0A],
      [CHR 0x0A],
      ''#Description of parameters, options available, acceptable operand / filetypes (Guided Integration formats this correctly):'' @ [CHR 0x0A],
      [CHR 0x09] @ ''#Data from NSLS-II, APS, or SSRL: where was data collected? Expected image extensions are .tiff for NSLS-II and .tif for APS / SSRL. NSLS-II images expected in sub directory '' @ [CHR 0x27] @ ''dark_sub'' @ [CHR 0x27, CHR 0x0A],
      [CHR 0x09] @ ''#Main integrated pattern directory: directory where sub directories are created in which integrated patterns are saved'' @ [CHR 0x0A],
      [CHR 0x09] @ ''#Poni file: instrument geometry (e.g., sample-to-detector distance, detector tilts) file - filetype must be .poni'' @ [CHR 0x0A],
      [CHR 0x09] @ ''#Mask file: static mask (e.g., beamstop, detector edges) - must be one of the following filetypes: *.tif | *.edf | *.npy | *.msk'' @ [CHR 0x0A],
      [CHR 0x0A],
      ''#Integration parameters (see pyFAI docs for more details):'' @ [CHR 0x0A],
      [CHR 0x09] @ ''#Pixel splitting options: no (no splitting), full (full splitting), bbox (bounding box), pseudo (scaled down bbox)'' @ [CHR 0x0A],
      [CHR 0x09] @ ''#X unit options: 2th_deg, 2th_rad, q_nm^-1, q_A^-1, d*2_A^-2, r_mm'' @ [CHR 0x0A],
      [CHR 0x09] @ ''#Radial (x-unit) points: the number of bins in the x-axis - must be a number'' @ [CHR 0x0A],
      [CHR 0x09] @ ''#Radial (x-unit) range: radial range to integrate image over (x-unit specific) - must be a pair of comma separated numbers or None for full range'' @ [CHR 0x0A],
      [CHR 0x09] @ ''#Azimuthal (deg.) range: azimuthal (deg.) range to integrate image over - must be a pair of comma separated numbers or None for full range'' @ [CHR 0x0A],
      [CHR 0x09] @ ''#Automask pixel value: pixels with intensity less than this value are automatically masked - must be a number'' @ [CHR 0x0A],
      [CHR 0x09] @ ''#Intensity error model options: none, poisson for variance = I'' @ [CHR 0x0A],
      [CHR 0x0A],
      hashes @ [CHR 0x0A]]"

text \<open>The lines from the start banner to the end banner.\<close>

definition section_lines :: "'f pylib \<Rightarrow> 'f int_config \<Rightarrow> string list" where
  "section_lines L cfg =
     [''Integration parameters and setup.'' @ [CHR 0x0A],
      ''Below here user can edit parameters after the colon. In-line comments are allowed.'' @ [CHR 0x0A],
      hashes @ [CHR 0x0A],
      [CHR 0x0A],
      kv_line ''Data from NSLS-II, APS, or SSRL'' (c_synsrc cfg),
      kv_line ''Main integrated pattern directory'' (c_oneDdir cfg),
      kv_line ''Poni file'' (c_fullponif cfg),
      kv_line ''Mask file'' (str_mask (c_fullmaskf cfg)),
      [CHR 0x0A],
      kv_line ''Pixel splitting method'' (c_intmethod cfg),
      kv_line ''X unit'' (c_xunit cfg),
      kv_line ''Radial (x-unit) points'' (str_of_int L (c_rad_points cfg)),
      kv_line ''Radial (x-unit) range'' (str_value L (c_rad_range cfg)),
      kv_line ''Azimuthal (deg.) range'' (str_value L (c_azim_range cfg)),
      kv_line ''Automask pixel value'' (str_value L (c_neg_mask cfg)),
      kv_line ''Intensity error model'' (c_errormodel cfg),
      [CHR 0x0A],
      hashes @ [CHR 0x0A],
      ''User notes / metadata allowed below here:'' @ [CHR 0x0A]]"

text \<open>All the lines: the last one, a row of hashes, has no line feed.\<close>

definition int_file_lines ::
  "'f pylib \<Rightarrow> string \<Rightarrow> string \<Rightarrow> string \<Rightarrow> 'f int_config \<Rightarrow> string list" where
  "int_file_lines L datestr timestr year cfg =
     head_lines datestr timestr year @ section_lines L cfg @ [hashes]"

text \<open>A line as reading returns it: it ends with its only line feed.\<close>

definition is_line :: "string \<Rightarrow> bool" where
  "is_line l = (l \<noteq> [] \<and> last l = CHR 0x0A \<and> CHR 0x0A \<notin> set (butlast l))"

text \<open>The numbers of the lines on which the keywords stand in a written file.\<close>

definition written_keyworddict :: "(string \<times> kwval) list" where
  "written_keyworddict =
     zip keyworddict_keys
       (map Line [28, 29, 30, 31, 33, 34, 35, 36, 37, 38, 39])"

section \<open>Texts that pass through the file unchanged\<close>

text \<open>
  A text is \<open>label_free\<close> when it contains none of the eleven keywords and not the
  end banner, so that the scan cannot take its line for another one.  It stays on its
  line (\<open>line_text\<close>) when it has no line break either.  It is read back as it was
  written (\<open>plain_text\<close>) when in addition it has no \<open>#\<close> and no white space at
  its ends; a value on a line that is split at a bare colon (\<open>plain_value\<close>) must
  also have no colon.  What the clock gives (\<open>clock_text\<close>) must not contain a
  banner.
\<close>

definition label_free :: "string \<Rightarrow> bool" where
  "label_free t = list_all (\<lambda>k. \<not> py_in k t) (editendstr # keyworddict_keys)"

definition line_text :: "string \<Rightarrow> bool" where
  "line_text t = (CHR 0x0A \<notin> set t \<and> CHR 0x0D \<notin> set t \<and> label_free t)"

definition plain_text :: "string \<Rightarrow> bool" where
  "plain_text t =
     (CHR 0x0A \<notin> set t \<and> CHR 0x0D \<notin> set t \<and> CHR ''#'' \<notin> set t \<and> py_strip t = t \<and> label_free t)"

definition plain_value :: "string \<Rightarrow> bool" where
  "plain_value t = (plain_text t \<and> CHR '':'' \<notin> set t)"

definition clock_text :: "string \<Rightarrow> bool" where
  "clock_text t =
     (CHR 0x0A \<notin> set t \<and> CHR 0x0D \<notin> set t \<and> \<not> py_in editstartstr t \<and> \<not> py_in editendstr t)"

text \<open>The characters that end a value or are stripped from it; and, among the
  characters the proofs meet, those that \<open>lower\<close> leaves as they are.\<close>

definition special :: "char \<Rightarrow> bool" where
  "special c = (py_isspace c \<or> c = CHR '':'' \<or> c = CHR ''#'')"

definition fixed_chars :: string where
  "fixed_chars = [CHR 0x09, CHR 0x0A, CHR 0x0B, CHR 0x0C, CHR 0x0D,
       CHR 0x1C, CHR 0x1D, CHR 0x1E, CHR 0x1F, CHR 0x20, CHR 0x85, CHR 0xA0, CHR '':'', CHR ''#'']
      @ ''0123456789'' @ [CHR 0xB2, CHR 0xB3, CHR 0xB9]"

text \<open>What is read from a written value: the text up to a \<open>#\<close>, stripped; for the
  values split at a bare colon, the text up to a colon first.\<close>

definition read_text :: "string \<Rightarrow> string" where
  "read_text t = py_strip (takeWhile (\<lambda>c. c \<noteq> CHR ''#'') t)"

definition read_colon_text :: "string \<Rightarrow> string" where
  "read_colon_text t = read_text (takeWhile (\<lambda>c. c \<noteq> CHR '':'') t)"

text \<open>The eleven written values of a configuration.\<close>

definition values_label_free :: "'f pylib \<Rightarrow> 'f int_config \<Rightarrow> bool" where
  "values_label_free L cfg =
     (label_free (c_synsrc cfg) \<and> label_free (c_oneDdir cfg) \<and> label_free (c_fullponif cfg)
      \<and> label_free (str_mask (c_fullmaskf cfg)) \<and> label_free (c_intmethod cfg)
      \<and> label_free (c_xunit cfg) \<and> label_free (str_of_int L (c_rad_points cfg))
      \<and> label_free (str_value L (c_rad_range cfg)) \<and> label_free (str_value L (c_azim_range cfg))
      \<and> label_free (str_value L (c_neg_mask cfg)) \<and> label_free (c_errormodel cfg))"

definition values_on_lines :: "'f pylib \<Rightarrow> 'f int_config \<Rightarrow> bool" where
  "values_on_lines L cfg =
     (line_text (c_synsrc cfg) \<and> line_text (c_oneDdir cfg) \<and> line_text (c_fullponif cfg)
      \<and> line_text (str_mask (c_fullmaskf cfg)) \<and> line_text (c_intmethod cfg)
      \<and> line_text (c_xunit cfg) \<and> line_text (str_of_int L (c_rad_points cfg))
      \<and> line_text (str_value L (c_rad_range cfg)) \<and> line_text (str_value L (c_azim_range cfg))
      \<and> line_text (str_value L (c_neg_mask cfg)) \<and> line_text (c_errormodel cfg))"

section \<open>Valid configurations\<close>

text \<open>
  A number of the configuration can be written and read when the text \<open>str\<close> prints
  for it is plain and the library reads that text back as the number: for the point
  count through \<open>int\<close>, for a range and for the automask value through
  \<open>literal_eval\<close>, which the script calls only on a text with a digit.  A range is
  absent or a pair (a tuple or a list of two) of bounds that are integers or floats; the
  automask value is absent or a float.
\<close>

definition prints_int :: "'f pylib \<Rightarrow> int \<Rightarrow> bool" where
  "prints_int L n = (plain_value (str_of_int L n) \<and> int_of_str L (str_of_int L n) = Inr n)"

fun numeric_bound :: "'f pyval \<Rightarrow> bool" where
  "numeric_bound (PInt n) = True"
| "numeric_bound (PFloat x) = True"
| "numeric_bound _ = False"

fun bounds_pair :: "'f pyval \<Rightarrow> bool" where
  "bounds_pair (PTuple [a, b]) = (numeric_bound a \<and> numeric_bound b)"
| "bounds_pair (PList [a, b]) = (numeric_bound a \<and> numeric_bound b)"
| "bounds_pair _ = False"

definition prints_range :: "'f pylib \<Rightarrow> 'f pyval \<Rightarrow> bool" where
  "prints_range L r =
     (r = PNone \<or>
      (bounds_pair r \<and> plain_value (str_value L r) \<and> any_isdigit (str_value L r)
       \<and> literal_eval L (str_value L r) = Inr r))"

definition prints_automask :: "'f pylib \<Rightarrow> 'f pyval \<Rightarrow> bool" where
  "prints_automask L v =
     (case v of
        PNone \<Rightarrow> True
      | PFloat x \<Rightarrow> plain_value (str_value L v) \<and> any_isdigit (str_value L v)
                    \<and> literal_eval L (str_value L v) = Inr v
      | _ \<Rightarrow> False)"

text \<open>
  A valid configuration with a mask file: the enumerated fields are accepted values in
  any case, the paths are plain texts, the poni file and the mask file exist and have an
  accepted extension, and the numbers can be written and read.
\<close>

definition valid_config :: "'f pylib \<Rightarrow> string set \<Rightarrow> 'f int_config \<Rightarrow> bool" where
  "valid_config L files cfg =
     (py_lower (c_synsrc cfg) \<in> set [''nsls-ii'', ''aps'', ''ssrl'']
      \<and> plain_text (c_oneDdir cfg)
      \<and> plain_text (c_fullponif cfg) \<and> c_fullponif cfg \<in> files
      \<and> py_endswith (c_fullponif cfg) ''.poni''
      \<and> (case c_fullmaskf cfg of
            None \<Rightarrow> False
          | Some m \<Rightarrow> plain_text m \<and> m \<in> files \<and> list_ex (\<lambda>ext. py_endswith m ext) maskfext_accepted)
      \<and> py_lower (c_intmethod cfg) \<in> set intmethod_accepted
      \<and> py_lower (c_xunit cfg) \<in> set xunit_accepted
      \<and> prints_int L (c_rad_points cfg)
      \<and> prints_range L (c_rad_range cfg)
      \<and> prints_range L (c_azim_range cfg)
      \<and> prints_automask L (c_neg_mask cfg)
      \<and> py_lower (c_errormodel cfg) \<in> set errormodel_accepted)"

text \<open>The example configuration without a mask file, the files of the example, and the
  example configuration with a \<open>#\<close> in the output directory.\<close>

definition nomask_cfg :: "(int \<times> int) int_config" where
  "nomask_cfg = demo_cfg\<lparr>c_fullmaskf := None\<rparr>"

definition demo_files :: "string set" where
  "demo_files = {''C:/data/geo.poni'', ''C:/data/mask.npy'', ''/data/geo.poni'', ''/data/mask.edf''}"

definition hash_cfg :: "(int \<times> int) int_config" where
  "hash_cfg = demo_cfg\<lparr>c_oneDdir := ''C:/data/run#1/1D''\<rparr>"

section \<open>Results\<close>

subsection \<open>Output file name\<close>

text \<open>
  C7.  The output file name is not the image name with its extension replaced:
  \<open>strip\<close> removes every leading and trailing character that occurs in the extension.
  For the NSLS-II image \<open>fit_test.tiff\<close> and the extension \<open>.xy\<close> the script writes
  \<open>_tes.xy\<close>, where replacing the extension gives \<open>fit_test.xy\<close>.
\<close>

theorem oneD_name_strips_stem:
  "oneD_name ''/'' ''out/s1/'' ''fit_test.tiff'' ''.tiff'' ''.xy'' = ''out/s1//_tes.xy''
   \<and> ''out/s1/'' @ ''/'' @ replace_extension ''fit_test.tiff'' ''.tiff'' ''.xy''
       = ''out/s1//fit_test.xy''"
  by (simp add: oneD_name_def py_strip_chars_def replace_extension_def)

subsection \<open>The batch loop\<close>

lemma run_files_points:
  "totalintcount s = length (intedimages s) \<Longrightarrow>
   list_all in_step (fst (run_files env sep idir tp ie oe m files s)) \<and>
   at_rest (snd (run_files env sep idir tp ie oe m files s))"
proof (induction files arbitrary: s)
  case Nil
  then show ?case by (simp add: at_rest_def)
next
  case (Cons f rest)
  let ?s1 = "s\<lparr>totalintcount := totalintcount s + 1\<rparr>"
  have s1: "in_step (Incremented, ?s1)" using Cons.prems by (simp add: in_step_def)
  show ?case
  proof (cases "integrate_image env sep idir tp ie oe m f")
    case (Inl e)
    then show ?thesis using s1 by (simp add: at_rest_def)
  next
    case (Inr written)
    let ?s2 = "?s1\<lparr>intedimages := intedimages ?s1 @ [f],
                     oneD_files := oneD_files ?s1 @ [written]\<rparr>"
    have inv2: "totalintcount ?s2 = length (intedimages ?s2)"
      using Cons.prems by simp
    have s2: "in_step (Appended, ?s2)" using Cons.prems by (simp add: in_step_def)
    note ih = Cons.IH [OF inv2]
    show ?thesis using Inr s1 s2 ih by (simp add: Let_def)
  qed
qed

lemma run_dirs_points:
  "totalintcount s = length (intedimages s) \<Longrightarrow>
   list_all in_step (fst (run_dirs env sep src td od ie oe m dirs s)) \<and>
   at_rest (snd (run_dirs env sep src td od ie oe m dirs s))"
proof (induction dirs arbitrary: s)
  case Nil
  then show ?case by (simp add: at_rest_def)
next
  case (Cons folder rest)
  show ?case
  proof (cases "int_dir sep src td folder")
    case (Inl e)
    then show ?thesis by (simp add: at_rest_def)
  next
    case (Inr idir)
    note idir = this
    show ?thesis
    proof (cases "listdir env idir")
      case (Inl e)
      then show ?thesis using idir by (simp add: at_rest_def)
    next
      case (Inr names)
      note names = this
      let ?r = "run_files env sep idir (od @ sep @ folder @ sep) ie oe m
                  (filter (\<lambda>f. py_endswith f ie) names) s"
      have rf: "list_all in_step (fst ?r) \<and> at_rest (snd ?r)"
        using Cons.prems by (rule run_files_points)
      show ?thesis
      proof (cases "snd ?r")
        case (Inl e)
        then show ?thesis using idir names rf by (simp add: Let_def at_rest_def)
      next
        case (Inr s')
        then have "totalintcount s' = length (intedimages s')"
          using rf by (simp add: at_rest_def)
        then have "list_all in_step (fst (run_dirs env sep src td od ie oe m rest s')) \<and>
                   at_rest (snd (run_dirs env sep src td od ie oe m rest s'))"
          by (rule Cons.IH)
        then show ?thesis using idir names Inr rf by (simp add: Let_def)
      qed
    qed
  qed
qed

lemmas eval_batch =
  execute_def demo_env_def int_dir_def py_endswith_def Let_def suffix_to_prefix
  integrate_image_def post_process_def oneD_name_def py_strip_chars_def d_lines2skip_def

text \<open>
  C9 (as amended).  At the start of the Execute step, after each image has been processed
  completely, and at the end of the step, the counter equals the length of the list of
  integrated file names.  After the increment that opens the processing of an image, and
  until the append that closes it, the counter is one more than the length.  So the total
  reported at the end is the number of names written to the record.
\<close>

theorem count_matches_images_at_boundaries:
  "(\<forall>(p, t) \<in> set (fst (execute env sep src td od ie oe m dirs)).
      (p = Incremented \<longrightarrow> totalintcount t = length (intedimages t) + 1) \<and>
      (p \<noteq> Incremented \<longrightarrow> totalintcount t = length (intedimages t))) \<and>
   (\<forall>t. snd (execute env sep src td od ie oe m dirs) = Inr t \<longrightarrow>
      totalintcount t = length (intedimages t))"
proof -
  let ?s0 = "\<lparr>totalintcount = 0, intedimages = [], oneD_files = []\<rparr>"
  have "totalintcount ?s0 = length (intedimages ?s0)" by simp
  then have r: "list_all in_step (fst (run_dirs env sep src td od ie oe m dirs ?s0)) \<and>
     at_rest (snd (run_dirs env sep src td od ie oe m dirs ?s0))"
    by (rule run_dirs_points)
  have "list_all in_step (fst (execute env sep src td od ie oe m dirs))"
    using r by (simp add: execute_def Let_def in_step_def)
  then have a: "\<forall>pt \<in> set (fst (execute env sep src td od ie oe m dirs)). in_step pt"
    by (simp add: list_all_iff)
  have b: "at_rest (snd (execute env sep src td od ie oe m dirs))"
    using r by (simp add: execute_def Let_def)
  show ?thesis
    using a b unfolding in_step_def at_rest_def by (auto split: sum.splits)
qed

text \<open>
  C9 as stated fails: in a run over one directory holding one image, the state right
  after the increment has the counter at 1 and an empty list.
\<close>

theorem count_matches_images_counterexample:
  "\<not> (\<forall>(p, t) \<in> set (fst (execute demo_env ''/'' ''APS'' ''in'' ''out'' ''.tif''
            (Some (''.xy'', [''#2th_deg'', ''I''])) (Some ''m.npy'') [''s1''])).
        totalintcount t = length (intedimages t))"
  by (simp add: eval_batch)

text \<open>The amended C9 on that run.\<close>

theorem count_matches_images_at_boundaries_witness:
  "fst (execute demo_env ''/'' ''APS'' ''in'' ''out'' ''.tif''
          (Some (''.xy'', [''#2th_deg'', ''I''])) (Some ''m.npy'') [''s1''])
     = [(Start, \<lparr>totalintcount = 0, intedimages = [], oneD_files = []\<rparr>),
        (Incremented, \<lparr>totalintcount = 1, intedimages = [], oneD_files = []\<rparr>),
        (Appended, \<lparr>totalintcount = 1, intedimages = [''a.tif''],
            oneD_files = [(''out/s1//a.xy'',
                           [''#2th_deg'', ''I''], [[''1.50000000'', ''20.25000000'']])]\<rparr>)]
   \<and> snd (execute demo_env ''/'' ''APS'' ''in'' ''out'' ''.tif''
          (Some (''.xy'', [''#2th_deg'', ''I''])) (Some ''m.npy'') [''s1''])
     = Inr \<lparr>totalintcount = 1, intedimages = [''a.tif''],
            oneD_files = [(''out/s1//a.xy'',
                           [''#2th_deg'', ''I''], [[''1.50000000'', ''20.25000000'']])]\<rparr>
   \<and> totalintcount \<lparr>totalintcount = 1, intedimages = [''a.tif''],
            oneD_files = [(''out/s1//a.xy'',
                           [''#2th_deg'', ''I''], [[''1.50000000'', ''20.25000000'']])]\<rparr>
     = length (intedimages \<lparr>totalintcount = 1, intedimages = [''a.tif''],
            oneD_files = [(''out/s1//a.xy'',
                           [''#2th_deg'', ''I''], [[''1.50000000'', ''20.25000000'']])]\<rparr>)"
  using count_matches_images_at_boundaries
    [of demo_env "''/''" "''APS''" "''in''" "''out''" "''.tif''"
        "Some (''.xy'', [''#2th_deg'', ''I''])" "Some ''m.npy''" "[''s1'']"]
  by (simp add: eval_batch)

subsection \<open>The pattern files\<close>



lemma integrate_image_unbound:
  "integrate_image env sep idir tp ie None m f \<noteq> Inr w"
  by (simp add: integrate_image_def split: option.splits)








subsection \<open>Output directories and coercion\<close>

lemma create_folders_all:
  "create_folders sep od fs dirs acc = (fs', Inr folders) \<Longrightarrow> folders = acc @ dirs"
proof (induction dirs arbitrary: fs acc)
  case Nil
  then show ?case by simp
next
  case (Cons d rest)
  obtain fs1 r where m: "mkdir fs (path_join sep od d) = (fs1, r)" by (cases "mkdir fs (path_join sep od d)")
  show ?case
  proof (cases r)
    case None
    then have "create_folders sep od fs1 rest (acc @ [d]) = (fs', Inr folders)"
      using Cons.prems m by simp
    then have "folders = (acc @ [d]) @ rest" by (rule Cons.IH)
    then show ?thesis by simp
  next
    case (Some e)
    show ?thesis
    proof (cases "e = FileExistsError")
      case True
      then have "create_folders sep od fs1 rest (acc @ [d]) = (fs', Inr folders)"
        using Cons.prems m Some by simp
      then have "folders = (acc @ [d]) @ rest" by (rule Cons.IH)
      then show ?thesis by simp
    next
      case False
      then have "create_folders sep od fs (d # rest) acc = (fs1, Inl e)"
        using m Some by (cases e) simp_all
      then show ?thesis using Cons.prems by simp
    qed
  qed
qed

lemma reconcile_never_reports:
  "snd (reconcile sep od fs dirs) \<noteq> Inl (Exit (MissingSubDirectories ms))"
proof (cases "create_folders sep od fs dirs []")
  case (Pair fs' r)
  show ?thesis
  proof (cases r)
    case (Inl e)
    then show ?thesis using Pair by (simp add: reconcile_def)
  next
    case (Inr folders)
    then have "folders = [] @ dirs" using Pair create_folders_all by blast
    then show ?thesis using Pair Inr by (simp add: reconcile_def)
  qed
qed

text \<open>
  C4.  With the creation refused for \<open>a\<close> and \<open>c\<close> out of the names \<open>a\<close>,
  \<open>b\<close>, \<open>c\<close>, the script leaves the loop at \<open>a\<close> with the exception that
  \<open>os.mkdir\<close> raised, which nothing catches; the comparison of the lists and the
  report of the missing names are not reached.  The reconciliation the specification
  describes reports \<open>a\<close> and \<open>c\<close>.
\<close>

theorem reconcile_stops_at_first_refusal:
  "snd (reconcile ''/'' ''out'' \<lparr>existing = {''out'', ''out/b''}, refused = {''out/a'', ''out/c''}\<rparr>
          [''a'', ''b'', ''c''])
     = Inl (Uncaught PermissionError)
   \<and> snd (reconcile_spec ''/'' ''out'' \<lparr>existing = {''out'', ''out/b''}, refused = {''out/a'', ''out/c''}\<rparr>
          [''a'', ''b'', ''c''])
     = Inl (Exit (MissingSubDirectories [''a'', ''c'']))"
  by (simp add: reconcile_def reconcile_spec_def mkdir_def path_join_def suffix_to_prefix)

text \<open>
  C3.  For the raw value \<open>foo\<close> the checks of the load path print the warning and
  leave \<open>intmethod\<close> and \<open>xunit\<close> as they are, where the checks of the guided
  path set the defaults \<open>full\<close> and \<open>2th_deg\<close>; \<open>errormodel\<close> is set to its
  default in both.
\<close>

theorem load_keeps_unaccepted_value:
  "load_intmethod ''foo'' = (''foo'', [IntmethodNotAccepted])
   \<and> guided_intmethod ''foo'' = (''full'', [IntmethodNotAccepted])
   \<and> load_xunit ''foo'' = (''foo'', [XunitNotAccepted])
   \<and> guided_xunit ''foo'' = (''2th_deg'', [XunitNotAccepted])
   \<and> check_errormodel ''foo'' = (''None'', [ErrormodelNotAccepted])"
  by (simp add: load_intmethod_def guided_intmethod_def load_xunit_def guided_xunit_def
      check_errormodel_def intmethod_accepted_def xunit_accepted_def errormodel_accepted_def
      d_intmethod_def d_xunit_def d_errormodel_def py_lower_def py_lower_char_def
      upper_chars_def lower_chars_def)

subsection \<open>Splitting and the value on a keyword line\<close>

lemma py_in_sublist: "py_in sub s \<longleftrightarrow> sublist sub s"
  by (induction s) (simp_all add: sublist_Cons_right)

lemma py_split_not_Nil: "py_split sep s \<noteq> []"
  by (induction sep s rule: py_split.induct) (auto split: list.splits)

lemma py_split_at_sep: "sep \<noteq> [] \<Longrightarrow> py_split sep (sep @ rest) = [] # py_split sep rest"
  by (cases sep) simp_all

lemma prefix_within:
  assumes "sep \<noteq> []" "prefix sep ((p # ps) @ sep @ rest)"
  shows "prefix sep ((p # ps) @ butlast sep)"
proof -
  have len: "length sep \<le> length ((p # ps) @ butlast sep)" by simp
  have "sep = take (length sep) ((p # ps) @ sep @ rest)"
    using assms(2) by (metis append_eq_conv_conj prefix_def)
  also have "(p # ps) @ sep @ rest = ((p # ps) @ butlast sep) @ ([last sep] @ rest)"
    using assms(1) by simp
  also have "take (length sep) \<dots> = take (length sep) ((p # ps) @ butlast sep)"
    using len by (simp only: take_append) simp
  finally have "sep = take (length sep) ((p # ps) @ butlast sep)" .
  then show ?thesis by (metis take_is_prefix)
qed

lemma py_split_first:
  "sep \<noteq> [] \<Longrightarrow> \<not> sublist sep (pre @ butlast sep) \<Longrightarrow>
   py_split sep (pre @ sep @ rest) = pre # py_split sep rest"
proof (induction pre)
  case Nil
  then show ?case by (simp add: py_split_at_sep)
next
  case (Cons p ps)
  have np: "\<not> prefix sep ((p # ps) @ sep @ rest)"
    using Cons.prems prefix_within [of sep p ps rest] by (meson prefix_imp_sublist)
  have "\<not> sublist sep (ps @ butlast sep)"
    using Cons.prems(2) by (simp add: sublist_Cons_right)
  then have "py_split sep (ps @ sep @ rest) = ps # py_split sep rest"
    using Cons.prems(1) Cons.IH by simp
  then show ?case using np by simp
qed

lemma py_split_none:
  "sep \<noteq> [] \<Longrightarrow> \<not> sublist sep s \<Longrightarrow> py_split sep s = [s]"
proof (induction s)
  case Nil
  then show ?case by simp
next
  case (Cons c cs)
  then show ?case by (simp add: sublist_Cons_right)
qed

lemma hd_py_split_char: "hd (py_split [c] s) = takeWhile (\<lambda>x. x \<noteq> c) s"
proof (induction s)
  case Nil
  then show ?case by simp
next
  case (Cons x xs)
  then show ?case using py_split_not_Nil [of "[c]" xs]
    by (cases "py_split [c] xs") auto
qed

lemma item0_py_split_char: "item0 (py_split [c] s) = Inr (takeWhile (\<lambda>x. x \<noteq> c) s)"
  using hd_py_split_char [of c s] py_split_not_Nil [of "[c]" s]
  by (cases "py_split [c] s") (simp_all add: item0_def)

lemma strip_comment_takeWhile: "strip_comment v = Inr (takeWhile (\<lambda>c. c \<noteq> CHR ''#'') v)"
proof (cases "CHR ''#'' \<in> set v")
  case True
  then show ?thesis by (simp add: strip_comment_def item0_py_split_char)
next
  case False
  then have "takeWhile (\<lambda>c. c \<noteq> CHR ''#'') v = v" by (auto simp: takeWhile_eq_all_conv)
  then show ?thesis using False by (simp only: strip_comment_def if_False)
qed

lemma item1_py_split_first:
  assumes "sep \<noteq> []" "\<not> sublist sep (pre @ butlast sep)"
  shows "item1 (py_split sep (pre @ sep @ rest)) = Inr (hd (py_split sep rest))"
  using py_split_first [OF assms, of rest] py_split_not_Nil [of sep rest]
  by (cases "py_split sep rest") (simp_all add: item1_def)

lemma sublist_single: "sublist [c] s \<longleftrightarrow> c \<in> set s"
  by (induction s) (auto simp: sublist_Cons_right)

text \<open>
  C6 (as amended).  On a line of one of the three path keywords (output directory, poni
  file, mask file) the value is the text after the first occurrence of the keyword with
  its colon, colons included, when the keyword with its colon does not occur again in it.
  On a line of one of the other eight keywords the value is the text between the first
  colon of the line and the next colon, or the end of the line.  In both cases the text
  is then cut at the first \<open>#\<close> and stripped of surrounding white space, interior
  white space kept.
\<close>

theorem extract_value_by_keyword:
  "(key \<in> set explicit_split_keywords \<and> py_strip_chars [CHR 0x0A] line = pre @ key @ '':'' @ v
      \<and> \<not> py_in (key @ '':'') (pre @ key) \<and> \<not> py_in (key @ '':'') v
    \<longrightarrow> extract_value key line = Inr (py_strip (takeWhile (\<lambda>c. c \<noteq> CHR ''#'') v)))
   \<and>
   (key \<notin> set explicit_split_keywords \<and> py_strip_chars [CHR 0x0A] line = pre @ '':'' @ v
      \<and> CHR '':'' \<notin> set pre
    \<longrightarrow> extract_value key line =
          Inr (py_strip (takeWhile (\<lambda>c. c \<noteq> CHR ''#'') (takeWhile (\<lambda>c. c \<noteq> CHR '':'') v))))"
proof (intro conjI impI)
  assume a: "key \<in> set explicit_split_keywords \<and> py_strip_chars [CHR 0x0A] line = pre @ key @ '':'' @ v
      \<and> \<not> py_in (key @ '':'') (pre @ key) \<and> \<not> py_in (key @ '':'') v"
  let ?sep = "key @ '':''"
  have ne: "?sep \<noteq> []" by simp
  have first: "\<not> sublist ?sep (pre @ butlast ?sep)"
    using a by (simp add: py_in_sublist butlast_append)
  have eq: "py_strip_chars [CHR 0x0A] line = pre @ ?sep @ v" using a by simp
  have "py_split ?sep v = [v]"
    using a by (simp add: py_split_none py_in_sublist)
  then have "item1 (py_split ?sep (pre @ ?sep @ v)) = Inr v"
    using item1_py_split_first [OF ne first, of v] by simp
  then show "extract_value key line = Inr (py_strip (takeWhile (\<lambda>c. c \<noteq> CHR ''#'') v))"
    using a eq by (simp add: extract_value_def strip_comment_takeWhile)
next
  assume a: "key \<notin> set explicit_split_keywords \<and> py_strip_chars [CHR 0x0A] line = pre @ '':'' @ v
      \<and> CHR '':'' \<notin> set pre"
  have first: "\<not> sublist '':'' (pre @ butlast '':'')"
    using a by (simp add: sublist_single)
  have "item1 (py_split '':'' (pre @ '':'' @ v)) = Inr (takeWhile (\<lambda>c. c \<noteq> CHR '':'') v)"
    using item1_py_split_first [OF _ first, of v] by (simp add: hd_py_split_char)
  then show "extract_value key line =
          Inr (py_strip (takeWhile (\<lambda>c. c \<noteq> CHR ''#'') (takeWhile (\<lambda>c. c \<noteq> CHR '':'') v)))"
    using a by (simp add: extract_value_def strip_comment_takeWhile)
qed

text \<open>The amended C6 on a poni line with a drive letter and a comment, and on a unit
  line.\<close>

theorem extract_value_by_keyword_witness:
  "extract_value ''Poni file'' (''Poni file: C:/data/geo.poni  # calibration'' @ [CHR 0x0A])
     = Inr ''C:/data/geo.poni''
   \<and> extract_value ''X unit'' (''X unit: q_A^-1 # unit'' @ [CHR 0x0A]) = Inr ''q_A^-1''"
  using extract_value_by_keyword [of "''Poni file''"
          "''Poni file: C:/data/geo.poni  # calibration'' @ [CHR 0x0A]" "[]"
          "'' C:/data/geo.poni  # calibration''"]
        extract_value_by_keyword [of "''X unit''"
          "''X unit: q_A^-1 # unit'' @ [CHR 0x0A]" "''X unit''" "'' q_A^-1 # unit''"]
  by (simp add: explicit_split_keywords_def py_strip_chars_def py_strip_def py_isspace_def)

text \<open>C6 as stated fails: on a unit line the value stops at the second colon.\<close>

theorem extract_value_counterexample:
  "map_option Inr (spec_value ''X unit'' (''X unit: 2th_deg:x'' @ [CHR 0x0A]))
     \<noteq> Some (extract_value ''X unit'' (''X unit: 2th_deg:x'' @ [CHR 0x0A]))"
  by (simp add: spec_value_def after_first_def extract_value_def explicit_split_keywords_def
      py_strip_chars_def py_strip_def py_isspace_def item1_def item0_def strip_comment_def)

subsection \<open>Keywords and the mask file\<close>

lemma scan_whole_file_set: "scan_whole_file i intlines num NA \<noteq> Unset"
  by (induction intlines arbitrary: num) auto

lemma scan_whole_file_nonempty: "intlines \<noteq> [] \<Longrightarrow> scan_whole_file i intlines num v \<noteq> Unset"
  by (cases intlines) (auto simp: scan_whole_file_set)

lemma fill_keyworddict_nonempty:
  "intlines \<noteq> [] \<Longrightarrow> Unset \<notin> set (map snd (fill_keyworddict intlines))"
  using scan_whole_file_nonempty [of intlines _ 0 Unset]
  by (auto simp: fill_keyworddict_def Let_def scan_section_def
      split: option.splits dest: sym)

lemma check_mask_missing: "p \<notin> files \<Longrightarrow> check_mask files p = Inl AttributeError"
  by (simp add: check_mask_def)

text \<open>
  C5.  For a file without any line the start banner is not found, the loop over the
  lines that assigns \<open>'N/A'\<close> has nothing to run over, every keyword keeps the value
  \<open>None\<close>, the check for \<open>'N/A'\<close> passes, and the first use of a line number raises
  \<open>TypeError\<close>: no keyword is reported.  (For a file with at least one line every
  keyword is given a line number or \<open>'N/A'\<close>: \<open>fill_keyworddict_nonempty\<close>.)
\<close>

theorem empty_file_not_reported:
  "locate_keywords [] = Inr (map (\<lambda>i. (i, Unset)) keyworddict_keys)
   \<and> load_int L files [] = Inl (Uncaught TypeError)"
  by (simp add: load_int_def locate_keywords_def fill_keyworddict_def falsy_def Let_def
      keyworddict_keys_def and_then_def read_value_def keyword_line_def raised_def)

subsection \<open>A written file, line by line\<close>

lemma int_file_text_lines:
  "int_file_text L datestr timestr year cfg = concat (int_file_lines L datestr timestr year cfg)"
  by (simp add: int_file_text_def GI_statement_def desc_statement_def int_setup_statement_def
      intprm_statement_def usernotes_statement_def int_file_lines_def head_lines_def
      section_lines_def kv_line_def year_line_def Version_def)

subsection \<open>The \<open>.int\<close> file and the confirmation\<close>




subsection \<open>Reading the lines back\<close>

lemma universal_newlines_id: "CHR 0x0D \<notin> set s \<Longrightarrow> universal_newlines s = s"
  by (induction s rule: universal_newlines.induct) auto

lemma py_lines_last: "CHR 0x0A \<notin> set l \<Longrightarrow> l \<noteq> [] \<Longrightarrow> py_lines l = [l]"
proof (induction l)
  case Nil
  then show ?case by simp
next
  case (Cons c cs)
  then show ?case by (cases cs) auto
qed

lemma py_lines_line:
  "CHR 0x0A \<notin> set body \<Longrightarrow> rest \<noteq> [] \<Longrightarrow>
   py_lines (body @ CHR 0x0A # rest) = (body @ [CHR 0x0A]) # py_lines rest"
  by (induction body) auto

lemma py_lines_is_line:
  assumes "is_line l" "rest \<noteq> []"
  shows "py_lines (l @ rest) = l # py_lines rest"
proof -
  have l: "l = butlast l @ [CHR 0x0A]" using assms(1) by (metis append_butlast_last_id is_line_def)
  have "py_lines (butlast l @ CHR 0x0A # rest) = (butlast l @ [CHR 0x0A]) # py_lines rest"
    using assms by (intro py_lines_line) (simp_all add: is_line_def)
  then show ?thesis using l by (metis append.assoc append_Cons append_Nil)
qed

lemma py_lines_concat:
  "list_all is_line ls \<Longrightarrow> CHR 0x0A \<notin> set e \<Longrightarrow> e \<noteq> [] \<Longrightarrow>
   py_lines (concat ls @ e) = ls @ [e]"
proof (induction ls)
  case Nil
  then show ?case by (simp add: py_lines_last)
next
  case (Cons l ls)
  have "py_lines (l @ (concat ls @ e)) = l # py_lines (concat ls @ e)"
    using Cons.prems by (intro py_lines_is_line) simp_all
  then show ?case using Cons by simp
qed

lemma is_line_kv: "CHR 0x0A \<notin> set label \<Longrightarrow> CHR 0x0A \<notin> set t \<Longrightarrow> is_line (kv_line label t)"
  by (simp add: is_line_def kv_line_def butlast_append)

lemma is_line_year: "CHR 0x0A \<notin> set y \<Longrightarrow> is_line (year_line y)"
  by (simp add: is_line_def year_line_def butlast_append)

lemma is_line_hashes: "is_line (hashes @ [CHR 0x0A])"
  by (simp add: is_line_def hashes_def)

lemma hashes_no_newline: "CHR 0x0A \<notin> set hashes \<and> CHR 0x0D \<notin> set hashes \<and> hashes \<noteq> []"
  by (simp add: hashes_def)

lemma head_lines_are_lines:
  "CHR 0x0A \<notin> set datestr \<Longrightarrow> CHR 0x0A \<notin> set timestr \<Longrightarrow> CHR 0x0A \<notin> set year \<Longrightarrow>
   list_all is_line (head_lines datestr timestr year)"
  unfolding head_lines_def
  by (simp add: is_line_kv is_line_year is_line_hashes) (simp add: is_line_def)

subsection \<open>Labels on the written lines\<close>

lemma sublist_snoc_other: "c \<notin> set k \<Longrightarrow> sublist k (t @ [c]) \<Longrightarrow> sublist k t"
proof -
  assume c: "c \<notin> set k" and s: "sublist k (t @ [c])"
  show "sublist k t"
  proof (cases k rule: rev_cases)
    case Nil
    then show ?thesis by simp
  next
    case (snoc ks x)
    then have "x \<noteq> c" using c by auto
    then show ?thesis using s snoc by (simp add: snoc_sublist_snoc)
  qed
qed

lemma sublist_avoid_last:
  assumes "k \<noteq> []" "c \<notin> set (butlast k)" "sublist k (u @ c # w)"
  shows "sublist k (u @ [c]) \<or> sublist k w"
proof -
  have "sublist k ((u @ [c]) @ w)" using assms(3) by simp
  then consider "sublist k (u @ [c])" | "sublist k w"
    | k1 k2 where "k = k1 @ k2" "suffix k1 (u @ [c])" "prefix k2 w"
    unfolding sublist_append by blast
  then show ?thesis
  proof cases
    case 1 then show ?thesis by simp
  next
    case 2 then show ?thesis by simp
  next
    case 3
    show ?thesis
    proof (cases "k2 = []")
      case True
      then show ?thesis using 3 by auto
    next
      case False
      note k2 = this
      show ?thesis
      proof (cases "k1 = []")
        case True
        then show ?thesis using 3 by auto
      next
        case False
        then have "last k1 = c" using 3(2) by (metis last_snoc suffix_def last_appendR snoc_eq_iff_butlast)
        then have "c \<in> set k1" using False by (metis last_in_set)
        moreover have "butlast k = k1 @ butlast k2" using 3(1) k2 by (simp add: butlast_append)
        ultimately show ?thesis using assms(2) by simp
      qed
    qed
  qed
qed

lemma py_in_kv_line:
  assumes "k \<noteq> []" "CHR '':'' \<notin> set (butlast k)" "hd k \<noteq> CHR '' ''" "CHR 0x0A \<notin> set k"
    "\<not> py_in k t"
  shows "py_in k (kv_line label t) = py_in k (label @ '':'')"
proof
  assume "py_in k (label @ '':'')"
  then have "sublist k ((label @ '':'') @ ('' '' @ t @ [CHR 0x0A]))"
    unfolding py_in_sublist sublist_append by blast
  then show "py_in k (kv_line label t)" by (simp add: py_in_sublist kv_line_def)
next
  assume "py_in k (kv_line label t)"
  then have "sublist k (label @ CHR '':'' # (CHR '' '' # t @ [CHR 0x0A]))"
    by (simp add: py_in_sublist kv_line_def)
  then have "sublist k (label @ '':'') \<or> sublist k (CHR '' '' # t @ [CHR 0x0A])"
    using sublist_avoid_last [OF assms(1) assms(2)] by blast
  moreover have "\<not> sublist k (CHR '' '' # t @ [CHR 0x0A])"
  proof
    assume "sublist k (CHR '' '' # t @ [CHR 0x0A])"
    then have "prefix k (CHR '' '' # t @ [CHR 0x0A]) \<or> sublist k (t @ [CHR 0x0A])"
      by (simp add: sublist_Cons_right)
    moreover have "\<not> prefix k (CHR '' '' # t @ [CHR 0x0A])"
      using assms(1) assms(3) by (cases k) auto
    moreover have "\<not> sublist k (t @ [CHR 0x0A])"
      using sublist_snoc_other [OF assms(4)] assms(5) by (auto simp: py_in_sublist)
    ultimately show False by blast
  qed
  ultimately show "py_in k (label @ '':'')" by (simp add: py_in_sublist)
qed

lemma py_in_year_line:
  assumes "k \<noteq> []" "CHR ''('' \<notin> set k" "CHR '')'' \<notin> set k" "\<not> py_in k y"
    "\<not> py_in k ''#Citation: Guided Integration Version 0.1 (''"
    "\<not> py_in k (''. https://github.com/adamcorrao/GuidedIntegration'' @ [CHR 0x0A])"
  shows "\<not> py_in k (year_line y)"
proof
  let ?A = "''#Citation: Guided Integration Version 0.1 ''"
  let ?B = "''. https://github.com/adamcorrao/GuidedIntegration'' @ [CHR 0x0A]"
  assume "py_in k (year_line y)"
  then have "sublist k (?A @ CHR ''('' # (y @ CHR '')'' # ?B))"
    by (simp add: py_in_sublist year_line_def)
  then have "sublist k (?A @ ''('') \<or> sublist k (y @ CHR '')'' # ?B)"
    using assms(1) assms(2) by (intro sublist_avoid_last) (auto dest: in_set_butlastD)
  moreover have "\<not> sublist k (?A @ ''('')" using assms(5) by (simp add: py_in_sublist)
  ultimately have "sublist k (y @ CHR '')'' # ?B)" by blast
  then have "sublist k (y @ '')'') \<or> sublist k ?B"
    using assms(1) assms(3) by (intro sublist_avoid_last) (auto dest: in_set_butlastD)
  moreover have "\<not> sublist k ?B" using assms(6) by (simp add: py_in_sublist)
  moreover have "\<not> sublist k (y @ '')'')"
    using sublist_snoc_other [OF assms(3)] assms(4) by (auto simp: py_in_sublist)
  ultimately show False by blast
qed

lemma py_in_hashes:
  assumes "sublist k (hashes @ [CHR 0x0A])" shows "set k \<subseteq> {CHR ''#'', CHR 0x0A}"
proof -
  have "set k \<subseteq> set (hashes @ [CHR 0x0A])" using assms by (rule set_mono_sublist)
  then show ?thesis by (auto simp: hashes_def)
qed

lemma not_in_hashes: "CHR ''e'' \<in> set k \<Longrightarrow> \<not> py_in k (hashes @ [CHR 0x0A])"
  using py_in_hashes [of k] by (auto simp: py_in_sublist)

lemma head_lines_no_start:
  assumes "clock_text datestr" "clock_text timestr" "clock_text year"
  shows "list_all (\<lambda>l. \<not> py_in editstartstr l) (head_lines datestr timestr year)"
proof -
  have k: "editstartstr \<noteq> []" "CHR '':'' \<notin> set (butlast editstartstr)"
    "hd editstartstr \<noteq> CHR '' ''" "CHR 0x0A \<notin> set editstartstr"
    "CHR ''('' \<notin> set editstartstr" "CHR '')'' \<notin> set editstartstr"
    "CHR ''e'' \<in> set editstartstr"
    by (simp_all add: editstartstr_def)
  have d: "\<not> py_in editstartstr (kv_line ''#Date'' datestr)"
    using assms(1) by (subst py_in_kv_line [OF k(1-4)]) (simp_all add: clock_text_def editstartstr_def)
  have t: "\<not> py_in editstartstr (kv_line ''#Time'' timestr)"
    using assms(2) by (subst py_in_kv_line [OF k(1-4)]) (simp_all add: clock_text_def editstartstr_def)
  have y: "\<not> py_in editstartstr (year_line year)"
    using assms(3) by (intro py_in_year_line k) (simp_all add: clock_text_def editstartstr_def)
  have h: "\<not> py_in editstartstr (hashes @ [CHR 0x0A])" using k(7) by (rule not_in_hashes)
  show ?thesis
    unfolding head_lines_def using d t y h by (simp add: editstartstr_def)
qed

subsection \<open>Finding the banners and the keywords\<close>

lemma first_line_append:
  "list_all (\<lambda>l. \<not> py_in s l) pre \<Longrightarrow>
   first_line s (pre @ rest) n = first_line s rest (n + length pre)"
  by (induction pre arbitrary: n) simp_all

lemma scan_lines_skip:
  "n + length pre \<le> editstartnum \<Longrightarrow>
   scan_lines i editstartnum editendnum (pre @ rest) n
     = scan_lines i editstartnum editendnum rest (n + length pre)"
  by (induction pre arbitrary: n) simp_all

lemma label_facts_conj:
  "k \<in> set (editstartstr # editendstr # keyworddict_keys) \<Longrightarrow>
   k \<noteq> [] \<and> CHR '':'' \<notin> set (butlast k) \<and> hd k \<noteq> CHR '' '' \<and> CHR 0x0A \<notin> set k
   \<and> \<not> set k \<subseteq> {CHR ''#'', CHR 0x0A}"
  unfolding editstartstr_def editendstr_def keyworddict_keys_def set_simps insert_iff empty_iff
  by (elim disjE) simp_all

lemma py_in_kv_label:
  assumes "label_free t" "k \<in> set (editendstr # keyworddict_keys)"
  shows "py_in k (kv_line label t) = py_in k (label @ '':'')"
proof -
  have k: "k \<in> set (editstartstr # editendstr # keyworddict_keys)" using assms(2) by simp
  have n: "\<not> py_in k t" using assms unfolding label_free_def list_all_iff by blast
  have f: "k \<noteq> [] \<and> CHR '':'' \<notin> set (butlast k) \<and> hd k \<noteq> CHR '' '' \<and> CHR 0x0A \<notin> set k
   \<and> \<not> set k \<subseteq> {CHR ''#'', CHR 0x0A}"
    using k by (rule label_facts_conj)
  show ?thesis
    using f n by (intro py_in_kv_line) simp_all
qed

lemma py_in_hashes_label:
  assumes "k \<in> set (editstartstr # editendstr # keyworddict_keys)"
  shows "py_in k (hashes @ [CHR 0x0A]) = False"
  using py_in_hashes [of k] label_facts_conj [OF assms] by (auto simp: py_in_sublist)

lemma head_lines_no_end:
  assumes "clock_text datestr" "clock_text timestr" "clock_text year"
  shows "list_all (\<lambda>l. \<not> py_in editendstr l) (head_lines datestr timestr year)"
proof -
  have k: "editendstr \<noteq> []" "CHR '':'' \<notin> set (butlast editendstr)"
    "hd editendstr \<noteq> CHR '' ''" "CHR 0x0A \<notin> set editendstr"
    "CHR ''('' \<notin> set editendstr" "CHR '')'' \<notin> set editendstr"
    by (simp_all add: editendstr_def)
  have d: "\<not> py_in editendstr (kv_line ''#Date'' datestr)"
    using assms(1) by (subst py_in_kv_line [OF k(1-4)]) (simp_all add: clock_text_def editendstr_def)
  have t: "\<not> py_in editendstr (kv_line ''#Time'' timestr)"
    using assms(2) by (subst py_in_kv_line [OF k(1-4)]) (simp_all add: clock_text_def editendstr_def)
  have y: "\<not> py_in editendstr (year_line year)"
    using assms(3) by (intro py_in_year_line k) (simp_all add: clock_text_def editendstr_def)
  have h: "\<not> py_in editendstr (hashes @ [CHR 0x0A])" by (simp add: py_in_hashes_label)
  show ?thesis
    unfolding head_lines_def using d t y h by (simp add: editendstr_def)
qed

lemma length_head_lines: "length (head_lines datestr timestr year) = 24"
  by (simp add: head_lines_def)

lemma start_found:
  assumes "clock_text datestr" "clock_text timestr" "clock_text year"
  shows "first_line editstartstr (int_file_lines L datestr timestr year cfg) 0 = Some 24"
proof -
  have "first_line editstartstr (head_lines datestr timestr year @ section_lines L cfg @ [hashes]) 0
        = first_line editstartstr (section_lines L cfg @ [hashes]) (0 + 24)"
    using head_lines_no_start [OF assms] by (simp only: first_line_append length_head_lines)
  also have "\<dots> = Some 24"
    by (simp add: section_lines_def editstartstr_def)
  finally show ?thesis by (simp add: int_file_lines_def)
qed

lemma end_found:
  assumes "clock_text datestr" "clock_text timestr" "clock_text year" "values_label_free L cfg"
  shows "first_line editendstr (int_file_lines L datestr timestr year cfg) 0 = Some 42"
proof -
  have "first_line editendstr (head_lines datestr timestr year @ section_lines L cfg @ [hashes]) 0
        = first_line editendstr (section_lines L cfg @ [hashes]) (0 + 24)"
    using head_lines_no_end [OF assms(1-3)] by (simp only: first_line_append length_head_lines)
  also have "\<dots> = Some 42"
    using assms(4) unfolding section_lines_def values_label_free_def
    by (simp add: py_in_kv_label py_in_hashes_label editendstr_def editstartstr_def
        keyworddict_keys_def)
  finally show ?thesis by (simp add: int_file_lines_def)
qed

lemma scan_written:
  assumes "values_label_free L cfg"
  shows "map (\<lambda>i. scan_lines i 24 42 (section_lines L cfg @ [hashes]) 24) keyworddict_keys
         = [Some 28, Some 29, Some 30, Some 31, Some 33, Some 34, Some 35, Some 36, Some 37,
            Some 38, Some 39]"
  using assms unfolding section_lines_def values_label_free_def
  by (simp add: py_in_kv_label py_in_hashes_label editendstr_def editstartstr_def
      keyworddict_keys_def)

lemma fill_keyworddict_written:
  assumes "clock_text datestr" "clock_text timestr" "clock_text year" "values_label_free L cfg"
  shows "fill_keyworddict (int_file_lines L datestr timestr year cfg) = written_keyworddict"
proof -
  let ?lines = "int_file_lines L datestr timestr year cfg"
  have s: "first_line editstartstr ?lines 0 = Some 24" using assms(1-3) by (rule start_found)
  have e: "first_line editendstr ?lines 0 = Some 42" using assms by (rule end_found)
  have skip: "scan_lines i 24 42 ?lines 0 = scan_lines i 24 42 (section_lines L cfg @ [hashes]) 24" for i
    using scan_lines_skip [of 0 "head_lines datestr timestr year" 24 i 42 "section_lines L cfg @ [hashes]"]
    by (simp add: int_file_lines_def length_head_lines)
  have "fill_keyworddict ?lines
        = map (\<lambda>i. (i, scan_section i 24 42 ?lines)) keyworddict_keys"
    by (simp add: fill_keyworddict_def s e falsy_def Let_def)
  also have "\<dots> = zip keyworddict_keys
      (map (\<lambda>r. case r of None \<Rightarrow> NA | Some num \<Rightarrow> Line num)
         (map (\<lambda>i. scan_lines i 24 42 (section_lines L cfg @ [hashes]) 24) keyworddict_keys))"
    by (simp add: scan_section_def skip zip_map2 zip_same_conv_map)
  also have "\<dots> = written_keyworddict"
    by (simp only: scan_written [OF assms(4)]) (simp add: written_keyworddict_def)
  finally show ?thesis .
qed

lemma locate_keywords_written:
  assumes "clock_text datestr" "clock_text timestr" "clock_text year" "values_label_free L cfg"
  shows "locate_keywords (int_file_lines L datestr timestr year cfg) = Inr written_keyworddict"
  unfolding locate_keywords_def fill_keyworddict_written [OF assms]
  by (simp add: written_keyworddict_def keyworddict_keys_def)

lemma length_section_lines: "length (section_lines L cfg) = 19"
  by (simp add: section_lines_def)

lemma nth_written:
  "n < 19 \<Longrightarrow> int_file_lines L datestr timestr year cfg ! (24 + n) = section_lines L cfg ! n"
  by (simp add: int_file_lines_def nth_append length_head_lines length_section_lines)

lemma length_written: "length (int_file_lines L datestr timestr year cfg) = 44"
  by (simp add: int_file_lines_def length_head_lines length_section_lines)

lemma keyword_line_written:
  "keyword_line written_keyworddict (int_file_lines L datestr timestr year cfg) ''Data from NSLS-II, APS, or SSRL''
     = Inr (kv_line ''Data from NSLS-II, APS, or SSRL'' (c_synsrc cfg))"
  "keyword_line written_keyworddict (int_file_lines L datestr timestr year cfg) ''Main integrated pattern directory''
     = Inr (kv_line ''Main integrated pattern directory'' (c_oneDdir cfg))"
  "keyword_line written_keyworddict (int_file_lines L datestr timestr year cfg) ''Poni file''
     = Inr (kv_line ''Poni file'' (c_fullponif cfg))"
  "keyword_line written_keyworddict (int_file_lines L datestr timestr year cfg) ''Mask file''
     = Inr (kv_line ''Mask file'' (str_mask (c_fullmaskf cfg)))"
  "keyword_line written_keyworddict (int_file_lines L datestr timestr year cfg) ''Pixel splitting method''
     = Inr (kv_line ''Pixel splitting method'' (c_intmethod cfg))"
  "keyword_line written_keyworddict (int_file_lines L datestr timestr year cfg) ''X unit''
     = Inr (kv_line ''X unit'' (c_xunit cfg))"
  "keyword_line written_keyworddict (int_file_lines L datestr timestr year cfg) ''Radial (x-unit) points''
     = Inr (kv_line ''Radial (x-unit) points'' (str_of_int L (c_rad_points cfg)))"
  "keyword_line written_keyworddict (int_file_lines L datestr timestr year cfg) ''Radial (x-unit) range''
     = Inr (kv_line ''Radial (x-unit) range'' (str_value L (c_rad_range cfg)))"
  "keyword_line written_keyworddict (int_file_lines L datestr timestr year cfg) ''Azimuthal (deg.) range''
     = Inr (kv_line ''Azimuthal (deg.) range'' (str_value L (c_azim_range cfg)))"
  "keyword_line written_keyworddict (int_file_lines L datestr timestr year cfg) ''Automask pixel value''
     = Inr (kv_line ''Automask pixel value'' (str_value L (c_neg_mask cfg)))"
  "keyword_line written_keyworddict (int_file_lines L datestr timestr year cfg) ''Intensity error model''
     = Inr (kv_line ''Intensity error model'' (c_errormodel cfg))"
  using nth_written [of 4 L datestr timestr year cfg] nth_written [of 5 L datestr timestr year cfg]
    nth_written [of 6 L datestr timestr year cfg] nth_written [of 7 L datestr timestr year cfg]
    nth_written [of 9 L datestr timestr year cfg] nth_written [of 10 L datestr timestr year cfg]
    nth_written [of 11 L datestr timestr year cfg] nth_written [of 12 L datestr timestr year cfg]
    nth_written [of 13 L datestr timestr year cfg] nth_written [of 14 L datestr timestr year cfg]
    nth_written [of 15 L datestr timestr year cfg]
  by (simp_all add: keyword_line_def written_keyworddict_def keyworddict_keys_def length_written
      section_lines_def)

subsection \<open>The value read from a written line\<close>

lemma strip_newline_kv:
  assumes "label \<noteq> []" "hd label \<noteq> CHR 0x0A" "CHR 0x0A \<notin> set t"
  shows "py_strip_chars [CHR 0x0A] (kv_line label t) = label @ '': '' @ t"
proof -
  obtain c cs where l: "label = c # cs" using assms(1) by (cases label) auto
  have c: "c \<noteq> CHR 0x0A" using assms(2) l by simp
  have "dropWhile (\<lambda>x. x \<in> set [CHR 0x0A]) (rev (label @ '': '' @ t)) = rev (label @ '': '' @ t)"
    using assms(3) by (cases t rule: rev_cases) auto
  then show ?thesis using c l by (simp add: py_strip_chars_def kv_line_def)
qed

lemma py_strip_blank: "py_strip (CHR '' '' # t) = py_strip t"
  by (simp add: py_strip_def py_isspace_def)

lemma takeWhile_all: "c \<notin> set t \<Longrightarrow> takeWhile (\<lambda>x. x \<noteq> c) t = t"
  by (induction t) auto

lemma extract_kv_colon:
  assumes "key \<notin> set explicit_split_keywords" "key \<noteq> []" "hd key \<noteq> CHR 0x0A"
    "CHR '':'' \<notin> set key" "CHR 0x0A \<notin> set t"
  shows "extract_value key (kv_line key t)
         = Inr (py_strip (takeWhile (\<lambda>c. c \<noteq> CHR ''#'') (takeWhile (\<lambda>c. c \<noteq> CHR '':'') t)))"
proof -
  have s: "py_strip_chars [CHR 0x0A] (kv_line key t) = key @ '':'' @ (CHR '' '' # t)"
    using strip_newline_kv [OF assms(2,3,5)] by simp
  have first: "\<not> sublist '':'' (key @ butlast '':'')"
    using assms(4) by (simp add: sublist_single)
  have ne: "'':'' \<noteq> []" by simp
  have "item1 (py_split '':'' (key @ '':'' @ (CHR '' '' # t)))
        = Inr (takeWhile (\<lambda>c. c \<noteq> CHR '':'') (CHR '' '' # t))"
    using item1_py_split_first [OF ne first, of "CHR '' '' # t"]
    by (simp only: hd_py_split_char)
  then have i: "item1 (py_split '':'' (key @ '':'' @ (CHR '' '' # t)))
        = Inr (CHR '' '' # takeWhile (\<lambda>c. c \<noteq> CHR '':'') t)" by simp
  show ?thesis
    using assms(1) i unfolding extract_value_def s
    by (simp add: strip_comment_takeWhile py_strip_blank)
qed

lemma extract_kv_explicit:
  assumes "key \<in> set explicit_split_keywords" "CHR 0x0A \<notin> set t" "label_free t"
  shows "extract_value key (kv_line key t) = Inr (py_strip (takeWhile (\<lambda>c. c \<noteq> CHR ''#'') t))"
proof -
  have k: "key \<noteq> []" "hd key \<noteq> CHR 0x0A" "hd key \<noteq> CHR '' ''" "key \<in> set keyworddict_keys"
    using assms(1) by (auto simp: explicit_split_keywords_def keyworddict_keys_def)
  let ?sep = "key @ '':''"
  have s: "py_strip_chars [CHR 0x0A] (kv_line key t) = [] @ ?sep @ (CHR '' '' # t)"
    using strip_newline_kv [OF k(1,2) assms(2)] by simp
  have first: "\<not> sublist ?sep ([] @ butlast ?sep)"
    using sublist_length_le [of ?sep key] by (auto simp: butlast_append)
  have "\<not> py_in key t" using assms(3) k(4) unfolding label_free_def list_all_iff by simp
  then have "\<not> sublist ?sep t"
    by (metis py_in_sublist sublist_order.order.trans sublist_append_rightI)
  moreover have "\<not> prefix ?sep (CHR '' '' # t)" using k(1,3) by (cases key) auto
  ultimately have "\<not> sublist ?sep (CHR '' '' # t)" by (simp add: sublist_Cons_right)
  then have "py_split ?sep (CHR '' '' # t) = [CHR '' '' # t]" by (intro py_split_none) simp_all
  then have i: "item1 (py_split ?sep ([] @ ?sep @ (CHR '' '' # t))) = Inr (CHR '' '' # t)"
    using item1_py_split_first [OF _ first, of "CHR '' '' # t"] by simp
  show ?thesis
    using assms(1) i unfolding extract_value_def s
    by (simp add: strip_comment_takeWhile py_strip_blank)
qed

lemma values_on_lines_label_free: "values_on_lines L cfg \<Longrightarrow> values_label_free L cfg"
  by (simp add: values_on_lines_def values_label_free_def line_text_def)

lemma is_line_text: "CHR 0x0A \<notin> set s \<Longrightarrow> is_line (s @ [CHR 0x0A])"
  by (simp add: is_line_def)

lemma section_lines_are_lines:
  assumes "values_on_lines L cfg"
  shows "list_all is_line (section_lines L cfg)"
proof -
  have h: "is_line [CHR 0x0A]" by (simp add: is_line_def)
  show ?thesis
    using assms h unfolding section_lines_def values_on_lines_def line_text_def list.pred_inject
    by (intro conjI is_line_kv is_line_hashes is_line_text) simp_all
qed

lemma no_return_kv:
  "CHR 0x0D \<notin> set label \<Longrightarrow> CHR 0x0D \<notin> set t \<Longrightarrow> CHR 0x0D \<notin> set (kv_line label t)"
  by (simp add: kv_line_def)

lemma no_return_written:
  assumes "clock_text datestr" "clock_text timestr" "clock_text year" "values_on_lines L cfg"
  shows "CHR 0x0D \<notin> set (concat (int_file_lines L datestr timestr year cfg))"
proof -
  have "list_all (\<lambda>l. CHR 0x0D \<notin> set l) (head_lines datestr timestr year)"
    using assms(1-3) unfolding head_lines_def clock_text_def list.pred_inject
    by (intro conjI no_return_kv) (simp_all add: year_line_def hashes_def)
  moreover have "list_all (\<lambda>l. CHR 0x0D \<notin> set l) (section_lines L cfg)"
    using assms(4) unfolding section_lines_def values_on_lines_def line_text_def list.pred_inject
    by (intro conjI no_return_kv) (simp_all add: hashes_def)
  ultimately show ?thesis
    by (auto simp: int_file_lines_def list_all_iff hashes_def)
qed

lemma read_lines_written:
  assumes "clock_text datestr" "clock_text timestr" "clock_text year" "values_on_lines L cfg"
  shows "read_lines (int_file_text L datestr timestr year cfg)
         = int_file_lines L datestr timestr year cfg"
proof -
  have h: "list_all is_line (head_lines datestr timestr year)"
    using assms(1-3) by (intro head_lines_are_lines) (simp_all add: clock_text_def)
  have s: "list_all is_line (section_lines L cfg)" using assms(4) by (rule section_lines_are_lines)
  have "py_lines (concat (head_lines datestr timestr year @ section_lines L cfg) @ hashes)
        = (head_lines datestr timestr year @ section_lines L cfg) @ [hashes]"
    using h s hashes_no_newline by (intro py_lines_concat) simp_all
  then have "py_lines (concat (int_file_lines L datestr timestr year cfg))
        = int_file_lines L datestr timestr year cfg"
    by (simp add: int_file_lines_def)
  then show ?thesis
    using no_return_written [OF assms]
    by (simp add: read_lines_def int_file_text_lines universal_newlines_id)
qed

lemma read_value_colon:
  assumes "keyword_line kd intlines key = Inr (kv_line key t)"
    "key \<notin> set explicit_split_keywords" "key \<noteq> []" "hd key \<noteq> CHR 0x0A"
    "CHR '':'' \<notin> set key" "line_text t"
  shows "read_value kd intlines key = Inr (read_colon_text t)"
  using assms(1) extract_kv_colon [OF assms(2-5), of t] assms(6)
  by (simp add: read_value_def raised_def read_colon_text_def read_text_def line_text_def)

lemma read_value_explicit:
  assumes "keyword_line kd intlines key = Inr (kv_line key t)"
    "key \<in> set explicit_split_keywords" "line_text t"
  shows "read_value kd intlines key = Inr (read_text t)"
  using assms(1) extract_kv_explicit [OF assms(2), of t] assms(3)
  by (simp add: read_value_def raised_def read_text_def line_text_def)

lemma load_int_written:
  assumes "clock_text datestr" "clock_text timestr" "clock_text year" "values_on_lines L cfg"
  shows "load_int L files (read_lines (int_file_text L datestr timestr year cfg)) =
     and_then (check_poni files (read_text (c_fullponif cfg))) (\<lambda>_.
     and_then (raised (check_mask files (read_text (str_mask (c_fullmaskf cfg))))) (\<lambda>fullmaskf.
     and_then (image_extension_for (read_colon_text (c_synsrc cfg))) (\<lambda>image_extension.
     and_then (raised (int_of_str L (read_colon_text (str_of_int L (c_rad_points cfg))))) (\<lambda>rad_points.
     and_then (check_range L (read_colon_text (str_value L (c_rad_range cfg)))) (\<lambda>rad_range.
     and_then (check_range L (read_colon_text (str_value L (c_azim_range cfg)))) (\<lambda>azim_range.
     and_then (check_neg_mask L (read_colon_text (str_value L (c_neg_mask cfg)))) (\<lambda>neg_mask.
       Inr \<lparr>c_synsrc = read_colon_text (c_synsrc cfg), c_oneDdir = read_text (c_oneDdir cfg),
            c_fullponif = read_text (c_fullponif cfg),
            c_fullmaskf = fst fullmaskf,
            c_intmethod = fst (load_intmethod (read_colon_text (c_intmethod cfg))),
            c_xunit = fst (load_xunit (read_colon_text (c_xunit cfg))),
            c_rad_points = rad_points,
            c_rad_range = fst rad_range, c_azim_range = fst azim_range,
            c_neg_mask = fst neg_mask,
            c_errormodel = fst (check_errormodel (read_colon_text (c_errormodel cfg)))\<rparr>)))))))"
proof -
  let ?lines = "int_file_lines L datestr timestr year cfg"
  note v = assms(4) [unfolded values_on_lines_def]
  have lines: "read_lines (int_file_text L datestr timestr year cfg) = ?lines"
    using assms by (rule read_lines_written)
  have kd: "locate_keywords ?lines = Inr written_keyworddict"
    using assms(1-3) values_on_lines_label_free [OF assms(4)] by (rule locate_keywords_written)
  have r1: "read_value written_keyworddict ?lines ''Data from NSLS-II, APS, or SSRL''
            = Inr (read_colon_text (c_synsrc cfg))"
    using v by (intro read_value_colon keyword_line_written) (simp_all add: explicit_split_keywords_def)
  have r2: "read_value written_keyworddict ?lines ''Main integrated pattern directory''
            = Inr (read_text (c_oneDdir cfg))"
    using v by (intro read_value_explicit keyword_line_written) (simp_all add: explicit_split_keywords_def)
  have r3: "read_value written_keyworddict ?lines ''Poni file'' = Inr (read_text (c_fullponif cfg))"
    using v by (intro read_value_explicit keyword_line_written) (simp_all add: explicit_split_keywords_def)
  have r4: "read_value written_keyworddict ?lines ''Mask file''
            = Inr (read_text (str_mask (c_fullmaskf cfg)))"
    using v by (intro read_value_explicit keyword_line_written) (simp_all add: explicit_split_keywords_def)
  have r5: "read_value written_keyworddict ?lines ''Pixel splitting method''
            = Inr (read_colon_text (c_intmethod cfg))"
    using v by (intro read_value_colon keyword_line_written) (simp_all add: explicit_split_keywords_def)
  have r6: "read_value written_keyworddict ?lines ''X unit'' = Inr (read_colon_text (c_xunit cfg))"
    using v by (intro read_value_colon keyword_line_written) (simp_all add: explicit_split_keywords_def)
  have r7: "read_value written_keyworddict ?lines ''Radial (x-unit) points''
            = Inr (read_colon_text (str_of_int L (c_rad_points cfg)))"
    using v by (intro read_value_colon keyword_line_written) (simp_all add: explicit_split_keywords_def)
  have r8: "read_value written_keyworddict ?lines ''Radial (x-unit) range''
            = Inr (read_colon_text (str_value L (c_rad_range cfg)))"
    using v by (intro read_value_colon keyword_line_written) (simp_all add: explicit_split_keywords_def)
  have r9: "read_value written_keyworddict ?lines ''Azimuthal (deg.) range''
            = Inr (read_colon_text (str_value L (c_azim_range cfg)))"
    using v by (intro read_value_colon keyword_line_written) (simp_all add: explicit_split_keywords_def)
  have r10: "read_value written_keyworddict ?lines ''Automask pixel value''
            = Inr (read_colon_text (str_value L (c_neg_mask cfg)))"
    using v by (intro read_value_colon keyword_line_written) (simp_all add: explicit_split_keywords_def)
  have r11: "read_value written_keyworddict ?lines ''Intensity error model''
            = Inr (read_colon_text (c_errormodel cfg))"
    using v by (intro read_value_colon keyword_line_written) (simp_all add: explicit_split_keywords_def)
  show ?thesis
    unfolding load_int_def lines kd
    by (simp only: and_then_def sum.case r1 r2 r3 r4 r5 r6 r7 r8 r9 r10 r11)
qed

subsection \<open>Plain texts\<close>

lemma not_upper_closed: "list_all (\<lambda>c. c \<notin> set upper_chars) fixed_chars"
  by (simp add: upper_chars_def fixed_chars_def)

lemma lower_fix: "c \<notin> set upper_chars \<Longrightarrow> py_lower_char c = c"
proof -
  assume a: "c \<notin> set upper_chars"
  have "map_of (zip upper_chars lower_chars) c = None"
  proof (rule ccontr)
    assume "map_of (zip upper_chars lower_chars) c \<noteq> None"
    then obtain d where "map_of (zip upper_chars lower_chars) c = Some d" by blast
    then have "(c, d) \<in> set (zip upper_chars lower_chars)" by (rule map_of_SomeD)
    then have "c \<in> set upper_chars" by (rule set_zip_leftD)
    then show False using a by simp
  qed
  then show ?thesis by (simp add: py_lower_char_def)
qed

lemma fixed_lower: "c \<in> set fixed_chars \<Longrightarrow> py_lower_char c = c"
  using not_upper_closed unfolding list_all_iff by (intro lower_fix) blast

lemma special_fixed: "special c \<Longrightarrow> c \<in> set fixed_chars"
  by (auto simp: special_def py_isspace_def fixed_chars_def)

lemma digit_fixed: "py_isdigit c \<Longrightarrow> c \<in> set fixed_chars"
  by (auto simp: py_isdigit_def fixed_chars_def)

lemma special_lower: "special c \<Longrightarrow> py_lower_char c = c"
  by (intro fixed_lower special_fixed)

lemma lower_no_special:
  assumes "\<forall>c \<in> set (py_lower v). \<not> special c"
  shows "\<forall>c \<in> set v. \<not> special c"
proof
  fix c assume c: "c \<in> set v"
  show "\<not> special c"
  proof
    assume s: "special c"
    then have "py_lower_char c = c" by (rule special_lower)
    then have "c \<in> set (py_lower v)" using c by (force simp: py_lower_def)
    then show False using assms s by blast
  qed
qed

lemma py_strip_id:
  assumes "\<forall>c \<in> set v. \<not> py_isspace c"
  shows "py_strip v = v"
proof -
  have "dropWhile py_isspace v = v" using assms by (cases v) auto
  moreover have "dropWhile py_isspace (rev v) = rev v" using assms by (cases "rev v") auto
  ultimately show ?thesis by (simp add: py_strip_def)
qed

lemma label_has_blank:
  "k \<in> set (editendstr # keyworddict_keys) \<Longrightarrow> CHR '' '' \<in> set k"
  by (auto simp: editendstr_def keyworddict_keys_def)

lemma no_blank_label_free:
  assumes "CHR '' '' \<notin> set v"
  shows "label_free v"
  unfolding label_free_def list_all_iff
proof
  fix k assume "k \<in> set (editendstr # keyworddict_keys)"
  then have "CHR '' '' \<in> set k" by (rule label_has_blank)
  then have "\<not> sublist k v" using assms set_mono_sublist by fastforce
  then show "\<not> py_in k v" by (simp add: py_in_sublist)
qed

lemma no_special_plain:
  assumes "\<forall>c \<in> set v. \<not> special c"
  shows "plain_value v"
proof -
  have sp: "\<forall>c \<in> set v. \<not> py_isspace c" using assms by (simp add: special_def)
  have a: "CHR 0x0A \<notin> set v" "CHR 0x0D \<notin> set v" "CHR '' '' \<notin> set v"
    using sp by (auto simp: py_isspace_def)
  have b: "CHR ''#'' \<notin> set v" "CHR '':'' \<notin> set v" using assms by (auto simp: special_def)
  show ?thesis
    using a b py_strip_id [OF sp] no_blank_label_free [OF a(3)]
    by (simp add: plain_value_def plain_text_def)
qed

lemma lower_in_plain:
  assumes "py_lower v \<in> set ws" "\<forall>w \<in> set ws. \<forall>c \<in> set w. \<not> special c"
  shows "plain_value v"
proof -
  have "\<forall>c \<in> set (py_lower v). \<not> special c" using assms by blast
  then have "\<forall>c \<in> set v. \<not> special c" by (rule lower_no_special)
  then show ?thesis by (rule no_special_plain)
qed

lemma plain_value_read:
  assumes "plain_value t"
  shows "line_text t" "read_colon_text t = t" "read_text t = t"
  using assms
  by (simp_all add: plain_value_def plain_text_def line_text_def read_colon_text_def read_text_def
      takeWhile_all)

lemma plain_text_read:
  assumes "plain_text t"
  shows "line_text t" "read_text t = t"
  using assms
  by (simp_all add: plain_text_def line_text_def read_text_def takeWhile_all)

lemma plain_None: "plain_value ''None''"
  by (intro no_special_plain) (simp add: special_def py_isspace_def)

lemma digit_not_none:
  assumes "any_isdigit t"
  shows "t \<noteq> []" "py_lower t \<noteq> ''none''" "t \<noteq> ''none''"
proof -
  obtain c where c: "c \<in> set t" "py_isdigit c" using assms by (auto simp: any_isdigit_def)
  show "t \<noteq> []" using c by auto
  have l: "py_lower_char c = c"
    using c(2) by (intro fixed_lower digit_fixed)
  have n: "c \<notin> set ''none''" using c(2) by (auto simp: py_isdigit_def)
  have "c \<in> set (py_lower t)" using c(1) l by (force simp: py_lower_def)
  then show "py_lower t \<noteq> ''none''" using n by auto
  show "t \<noteq> ''none''" using c(1) n by auto
qed

subsection \<open>Writing a configuration and loading it again\<close>

lemma enum_words:
  "\<forall>w \<in> set [''nsls-ii'', ''aps'', ''ssrl'']. \<forall>c \<in> set w. \<not> special c"
  "\<forall>w \<in> set intmethod_accepted. \<forall>c \<in> set w. \<not> special c"
  "\<forall>w \<in> set xunit_accepted. \<forall>c \<in> set w. \<not> special c"
  "\<forall>w \<in> set errormodel_accepted. \<forall>c \<in> set w. \<not> special c"
  by (simp_all add: intmethod_accepted_def xunit_accepted_def errormodel_accepted_def
      special_def py_isspace_def)

lemma numeric_bound_passes: "numeric_bound v \<Longrightarrow> \<not> not_float_or_int v"
  by (cases v) (simp_all add: not_float_or_int_def)

lemma range_pair_passes:
  assumes "bounds_pair r"
  shows "range_try_body L r = Inr (r, [])"
  using assms
proof (cases r rule: bounds_pair.cases)
  case (1 a b)
  then show ?thesis
    using assms by (simp add: range_try_body_def py_len_def py_item_def numeric_bound_passes)
next
  case (2 a b)
  then show ?thesis
    using assms by (simp add: range_try_body_def py_len_def py_item_def numeric_bound_passes)
qed simp_all

lemma check_range_printed:
  assumes "prints_range L r"
  shows "check_range L (str_value L r) = Inr (r, [])"
proof (cases "r = PNone")
  case True
  then show ?thesis
    by (simp add: check_range_def str_value_def py_lower_def py_lower_char_def upper_chars_def
        lower_chars_def)
next
  case False
  then have p: "any_isdigit (str_value L r)" "literal_eval L (str_value L r) = Inr r"
    "bounds_pair r"
    using assms by (simp_all add: prints_range_def)
  show ?thesis
    using p(1,2) digit_not_none [OF p(1)] range_pair_passes [OF p(3), of L]
    by (simp add: check_range_def)
qed

lemma check_neg_mask_printed:
  assumes "prints_automask L v"
  shows "check_neg_mask L (str_value L v) = Inr (v, [])"
proof (cases v)
  case PNone
  then show ?thesis
    by (simp add: check_neg_mask_def str_value_def py_lower_def py_lower_char_def upper_chars_def
        lower_chars_def)
next
  case (PFloat x)
  then have p: "any_isdigit (str_value L v)" "literal_eval L (str_value L v) = Inr v"
    using assms by (simp_all add: prints_automask_def)
  show ?thesis
    using p digit_not_none [OF p(1)] PFloat
    by (simp add: check_neg_mask_def automask_try_body_def)
qed (use assms in \<open>simp_all add: prints_automask_def\<close>)

lemma prints_range_plain: "prints_range L r \<Longrightarrow> plain_value (str_value L r)"
  by (auto simp: prints_range_def str_value_def plain_None)

lemma prints_automask_plain: "prints_automask L v \<Longrightarrow> plain_value (str_value L v)"
  by (cases v) (simp_all add: prints_automask_def str_value_def plain_None)

lemma load_xunit_accepted:
  assumes "py_lower x \<in> set xunit_accepted"
  shows "fst (load_xunit x) = py_lower x"
  using assms by (auto simp: load_xunit_def xunit_accepted_def Let_def d_xunit_def)

lemma check_errormodel_accepted:
  assumes "py_lower e \<in> set errormodel_accepted"
  shows "fst (check_errormodel e) = py_lower e"
proof -
  have "e \<noteq> []" using assms by (auto simp: errormodel_accepted_def py_lower_def)
  then show ?thesis using assms by (simp add: check_errormodel_def)
qed

lemma image_extension_accepted:
  assumes "py_lower s \<in> set [''nsls-ii'', ''aps'', ''ssrl'']"
  shows "\<exists>ext. image_extension_for s = Inr ext"
  using assms by (auto simp: image_extension_for_def)

text \<open>
  C1 (as amended).  For every valid configuration with a mask file, whose paths are plain
  texts (no \<open>#\<close>, no line break, no white space at the ends, none of the keywords and
  not the end banner inside) whose ranges are absent or pairs of
  integer or float bounds, whose automask value is absent or a float, and whose numbers
  are printed by \<open>str\<close> as plain texts that the library reads back, writing the \<open>.int\<close> text and loading its lines gives
  the configuration again, with the unit and the error model in lower case and the data
  source and the splitting method as written.  The date, the time and the year written
  into the head of the file must not contain a banner or a line break.
\<close>

theorem load_written_config:
  assumes "valid_config L files cfg" "clock_text datestr" "clock_text timestr" "clock_text year"
  shows "load_int L files (read_lines (int_file_text L datestr timestr year cfg))
         = Inr (cfg\<lparr>c_xunit := py_lower (c_xunit cfg),
                    c_errormodel := py_lower (c_errormodel cfg)\<rparr>)"
proof -
  note v = assms(1) [unfolded valid_config_def]
  obtain m where m: "c_fullmaskf cfg = Some m" "plain_text m" "m \<in> files"
    "list_ex (\<lambda>ext. py_endswith m ext) maskfext_accepted"
    using v by (cases "c_fullmaskf cfg") auto
  have p1: "plain_value (c_synsrc cfg)" using v enum_words(1) by (intro lower_in_plain) blast+
  have p2: "plain_text (c_oneDdir cfg)" using v by simp
  have p3: "plain_text (c_fullponif cfg)" using v by simp
  have p4: "plain_text (str_mask (c_fullmaskf cfg))" using m by (simp add: str_mask_def)
  have p5: "plain_value (c_intmethod cfg)" using v enum_words(2) by (intro lower_in_plain) blast+
  have p6: "plain_value (c_xunit cfg)" using v enum_words(3) by (intro lower_in_plain) blast+
  have p7: "plain_value (str_of_int L (c_rad_points cfg))" using v by (simp add: prints_int_def)
  have p8: "plain_value (str_value L (c_rad_range cfg))" using v by (intro prints_range_plain) simp
  have p9: "plain_value (str_value L (c_azim_range cfg))" using v by (intro prints_range_plain) simp
  have p10: "plain_value (str_value L (c_neg_mask cfg))" using v by (intro prints_automask_plain) simp
  have p11: "plain_value (c_errormodel cfg)" using v enum_words(4) by (intro lower_in_plain) blast+
  have on_lines: "values_on_lines L cfg"
    unfolding values_on_lines_def
    using plain_value_read(1) [OF p1] plain_text_read(1) [OF p2] plain_text_read(1) [OF p3]
      plain_text_read(1) [OF p4] plain_value_read(1) [OF p5] plain_value_read(1) [OF p6]
      plain_value_read(1) [OF p7] plain_value_read(1) [OF p8] plain_value_read(1) [OF p9]
      plain_value_read(1) [OF p10] plain_value_read(1) [OF p11]
    by simp
  note reads = plain_value_read(2) [OF p1] plain_text_read(2) [OF p2] plain_text_read(2) [OF p3]
      plain_text_read(2) [OF p4] plain_value_read(2) [OF p5] plain_value_read(2) [OF p6]
      plain_value_read(2) [OF p7] plain_value_read(2) [OF p8] plain_value_read(2) [OF p9]
      plain_value_read(2) [OF p10] plain_value_read(2) [OF p11]
  have c1: "check_poni files (c_fullponif cfg) = Inr ()" using v by (simp add: check_poni_def)
  have c2: "check_mask files (str_mask (c_fullmaskf cfg)) = Inr (c_fullmaskf cfg, [])"
    using m by (simp add: check_mask_def str_mask_def)
  obtain ext where c3: "image_extension_for (c_synsrc cfg) = Inr ext"
    using v image_extension_accepted by blast
  have c4: "int_of_str L (str_of_int L (c_rad_points cfg)) = Inr (c_rad_points cfg)"
    using v by (simp add: prints_int_def)
  have c5: "check_range L (str_value L (c_rad_range cfg)) = Inr (c_rad_range cfg, [])"
    using v by (intro check_range_printed) simp
  have c6: "check_range L (str_value L (c_azim_range cfg)) = Inr (c_azim_range cfg, [])"
    using v by (intro check_range_printed) simp
  have c7: "check_neg_mask L (str_value L (c_neg_mask cfg)) = Inr (c_neg_mask cfg, [])"
    using v by (intro check_neg_mask_printed) simp
  have c8: "fst (load_intmethod (c_intmethod cfg)) = c_intmethod cfg"
    by (simp add: load_intmethod_def)
  have c9: "fst (load_xunit (c_xunit cfg)) = py_lower (c_xunit cfg)"
    using v by (intro load_xunit_accepted) simp
  have c10: "fst (check_errormodel (c_errormodel cfg)) = py_lower (c_errormodel cfg)"
    using v by (intro check_errormodel_accepted) simp
  show ?thesis
    unfolding load_int_written [OF assms(2-4) on_lines] reads
    by (simp add: and_then_def raised_def c1 c2 c3 c4 c5 c6 c7 c8 c9 c10)
qed

lemmas eval_text =
  plain_text_def plain_value_def label_free_def line_text_def clock_text_def
  editstartstr_def editendstr_def keyworddict_keys_def
  py_strip_def py_isspace_def py_isdigit_def any_isdigit_def
  py_lower_def py_lower_char_def upper_chars_def lower_chars_def
  py_endswith_def suffix_to_prefix

text \<open>The amended C1 on the two example configurations: a radial range with float
  bounds, no azimuthal range, the default automask value, the unit \<open>q_A^-1\<close> and the
  error model \<open>None\<close>; and no radial range, an azimuthal range with integer bounds,
  no automask value, a directory name with a blank and the error model \<open>poisson\<close>.\<close>

theorem load_written_config_witness:
  "load_int demo_lib demo_files
     (read_lines (int_file_text demo_lib ''03Nov2026'' ''10-00-00'' ''2026'' demo_cfg))
   = Inr (demo_cfg\<lparr>c_xunit := ''q_a^-1'', c_errormodel := ''none''\<rparr>)
   \<and> load_int demo_lib demo_files
     (read_lines (int_file_text demo_lib ''03Nov2026'' ''10-00-00'' ''2026'' demo_cfg2))
   = Inr demo_cfg2"
proof -
  have v: "valid_config demo_lib demo_files demo_cfg"
    by (simp add: valid_config_def demo_cfg_def demo_files_def demo_lib_def prints_int_def
        prints_range_def prints_automask_def str_value_def intmethod_accepted_def
        xunit_accepted_def errormodel_accepted_def maskfext_accepted_def eval_text)
  have v2: "valid_config demo_lib demo_files demo_cfg2"
    by (simp add: valid_config_def demo_cfg2_def demo_files_def demo_lib_def prints_int_def
        prints_range_def prints_automask_def str_value_def intmethod_accepted_def
        xunit_accepted_def errormodel_accepted_def maskfext_accepted_def eval_text)
  have c: "clock_text ''03Nov2026''" "clock_text ''10-00-00''" "clock_text ''2026''"
    by (simp_all add: eval_text)
  have l: "py_lower (c_xunit demo_cfg) = ''q_a^-1''" "py_lower (c_errormodel demo_cfg) = ''none''"
    by (simp_all add: demo_cfg_def eval_text)
  have l2: "demo_cfg2\<lparr>c_xunit := py_lower (c_xunit demo_cfg2),
                      c_errormodel := py_lower (c_errormodel demo_cfg2)\<rparr> = demo_cfg2"
    by (simp add: demo_cfg2_def eval_text)
  show ?thesis
    using load_written_config [OF v c] load_written_config [OF v2 c] by (simp only: l l2)
qed

text \<open>C1 as stated fails: a configuration with the output directory
  \<open>C:/data/run#1/1D\<close> is loaded with the directory \<open>C:/data/run\<close>, since the text
  from the \<open>#\<close> on is taken for a comment.\<close>

theorem load_written_config_counterexample:
  "load_int demo_lib demo_files
     (read_lines (int_file_text demo_lib ''03Nov2026'' ''10-00-00'' ''2026'' hash_cfg))
   = Inr (hash_cfg\<lparr>c_oneDdir := ''C:/data/run'', c_xunit := ''q_a^-1'', c_errormodel := ''none''\<rparr>)
   \<and> c_oneDdir hash_cfg \<noteq> ''C:/data/run''"
proof -
  have c: "clock_text ''03Nov2026''" "clock_text ''10-00-00''" "clock_text ''2026''"
    by (simp_all add: eval_text)
  have v: "values_on_lines demo_lib hash_cfg"
    by (simp add: values_on_lines_def hash_cfg_def demo_cfg_def demo_lib_def str_value_def
        str_mask_def eval_text)
  show ?thesis
    unfolding load_int_written [OF c v]
    by (simp add: hash_cfg_def demo_cfg_def demo_lib_def demo_files_def str_value_def str_mask_def
        read_text_def read_colon_text_def and_then_def raised_def check_poni_def check_mask_def
        maskfext_accepted_def image_extension_for_def check_range_def range_try_body_def
        py_len_def py_item_def not_float_or_int_def check_neg_mask_def automask_try_body_def
        load_intmethod_def load_xunit_def check_errormodel_def intmethod_accepted_def
        xunit_accepted_def errormodel_accepted_def d_xunit_def Let_def eval_text)
qed

subsection \<open>Loading without a mask file\<close>

text \<open>
  C2.  The file that the script writes for a configuration without a mask has the mask
  line \<open>Mask file: None\<close>.  When it is loaded, no file exists at the path
  \<open>None\<close>: the first check sets the variable to \<open>None\<close> and the second calls
  \<open>endswith\<close> on it, so the load raises \<open>AttributeError\<close>.  A mask file that
  exists with another extension is dropped with a warning, and an accepted one is kept.
\<close>

theorem missing_mask_raises:
  "load_int demo_lib demo_files
     (read_lines (int_file_text demo_lib ''03Nov2026'' ''10-00-00'' ''2026'' nomask_cfg))
   = Inl (Uncaught AttributeError)
   \<and> check_mask demo_files ''None'' = Inl AttributeError
   \<and> check_mask {''geom.poni'', ''mask.txt''} ''mask.txt'' = Inr (None, [MaskUnacceptedFiletype])
   \<and> check_mask {''geom.poni'', ''mask.npy''} ''mask.npy'' = Inr (Some ''mask.npy'', [])"
proof -
  have c: "clock_text ''03Nov2026''" "clock_text ''10-00-00''" "clock_text ''2026''"
    by (simp_all add: eval_text)
  have v: "values_on_lines demo_lib nomask_cfg"
    by (simp add: values_on_lines_def nomask_cfg_def demo_cfg_def demo_lib_def str_value_def
        str_mask_def eval_text)
  have "load_int demo_lib demo_files
     (read_lines (int_file_text demo_lib ''03Nov2026'' ''10-00-00'' ''2026'' nomask_cfg))
   = Inl (Uncaught AttributeError)"
    unfolding load_int_written [OF c v]
    by (simp add: nomask_cfg_def demo_cfg_def demo_files_def str_mask_def
        read_text_def and_then_def raised_def check_poni_def check_mask_def eval_text)
  then show ?thesis
    by (simp add: check_mask_def demo_files_def maskfext_accepted_def py_endswith_def
        suffix_to_prefix)
qed

end
